theory Spec2Isabelle
  imports Main
begin

section \<open>Python values, errors and sequencing\<close>

text \<open>
  The two source files are \<^verbatim>\<open>dgmr_deterministic/dgmr/generators.py\<close> (called the
  standard variant below) and \<^verbatim>\<open>experiments/dgmr-dct/dgmr/generators.py\<close> (the DCT
  variant). Both define a class \<^verbatim>\<open>Sampler\<close> with \<^verbatim>\<open>__init__\<close> and \<^verbatim>\<open>forward\<close>.

  Every exception the Python raises is a value \<open>Inl e\<close> of the result type
  \<open>error + 'a\<close>; \<open>bind_err\<close> is the sequencing of two statements, the second of
  which is skipped when the first raises.
\<close>

datatype error = IndexError | KeyError | TypeError | ValueError | RuntimeError | EinopsError

definition bind_err :: "error + 'a \<Rightarrow> ('a \<Rightarrow> error + 'b) \<Rightarrow> error + 'b" where
  "bind_err m f = (case m of Inl e \<Rightarrow> Inl e | Inr v \<Rightarrow> f v)"

text \<open>A list comprehension \<^verbatim>\<open>[f(h) for h in hs]\<close>: the first exception ends it.\<close>

fun map_err :: "('a \<Rightarrow> error + 'b) \<Rightarrow> 'a list \<Rightarrow> error + 'b list" where
  "map_err f [] = Inr []"
| "map_err f (x # xs) =
     bind_err (f x) (\<lambda>y. bind_err (map_err f xs) (\<lambda>ys. Inr (y # ys)))"

text \<open>
  The values a configuration dictionary holds: integers and nested dictionaries
  (insertion ordered, as Python's are).
\<close>

datatype pyval = PInt int | PDict "(string \<times> pyval) list"

type_synonym pydict = "(string \<times> pyval) list"

text \<open>\<^verbatim>\<open>d.get(k, default)\<close> on a dictionary.\<close>

definition dict_get :: "pydict \<Rightarrow> string \<Rightarrow> pyval \<Rightarrow> pyval" where
  "dict_get d k dflt = (case map_of d k of None \<Rightarrow> dflt | Some v \<Rightarrow> v)"

text \<open>\<^verbatim>\<open>v[k]\<close> with a string key: KeyError when the key is missing, TypeError when
  \<open>v\<close> is not a dictionary.\<close>

definition py_item :: "pyval \<Rightarrow> string \<Rightarrow> error + pyval" where
  "py_item v k =
     (case v of
        PInt n \<Rightarrow> Inl TypeError
      | PDict d \<Rightarrow> (case map_of d k of None \<Rightarrow> Inl KeyError | Some x \<Rightarrow> Inr x))"

text \<open>The integer arithmetic of \<^verbatim>\<open>__init__\<close> (\<^verbatim>\<open>+\<close>, \<^verbatim>\<open>//\<close>, \<^verbatim>\<open>*\<close>) raises TypeError
  on a dictionary.\<close>

definition as_int :: "pyval \<Rightarrow> error + int" where
  "as_int v = (case v of PInt n \<Rightarrow> Inr n | PDict d \<Rightarrow> Inl TypeError)"

text \<open>\<^verbatim>\<open>xs[i]\<close> on a Python list, for the non-negative indices the source uses.\<close>

definition list_index :: "'a list \<Rightarrow> nat \<Rightarrow> error + 'a" where
  "list_index xs i = (if i < length xs then Inr (xs ! i) else Inl IndexError)"

text \<open>\<^verbatim>\<open>[x] * n\<close>: \<open>n\<close> copies of \<open>x\<close>, none when \<open>n \<le> 0\<close>; TypeError when \<open>n\<close>
  is not an integer.\<close>

definition list_repeat :: "'a \<Rightarrow> pyval \<Rightarrow> error + 'a list" where
  "list_repeat x n =
     (case n of PInt k \<Rightarrow> Inr (replicate (nat k) x) | PDict d \<Rightarrow> Inl TypeError)"

text \<open>\<^verbatim>\<open>range(n)\<close>.\<close>

definition py_range :: "pyval \<Rightarrow> error + nat list" where
  "py_range n = (case n of PInt k \<Rightarrow> Inr [0..<nat k] | PDict d \<Rightarrow> Inl TypeError)"

section \<open>Tensors and the tensor operations of \<^verbatim>\<open>forward\<close>\<close>

text \<open>
  A tensor is its shape and its entries in row-major order. The entry type \<open>'a\<close>
  stands for the floating-point numbers, whose arithmetic is not modelled: every
  numeric kernel is a parameter (see \<open>weights\<close> below), and only the movement of
  entries (indexing, concatenation, stacking, repetition, depth-to-space) is computed.
\<close>

record 'a tensor =
  shape :: "nat list"
  vals :: "'a list"

definition numel :: "nat list \<Rightarrow> nat" where
  "numel ds = prod_list ds"

text \<open>The \<open>i\<close>-th block of \<open>m\<close> consecutive entries.\<close>

definition chunk :: "nat \<Rightarrow> nat \<Rightarrow> 'a list \<Rightarrow> 'a list" where
  "chunk m i xs = take m (drop (i * m) xs)"

text \<open>The tensor of shape \<open>s\<close> whose \<open>i\<close>-th entry is \<open>f i\<close>.\<close>

definition fill :: "nat list \<Rightarrow> (nat \<Rightarrow> 'a) \<Rightarrow> 'a tensor" where
  "fill s f = \<lparr>shape = s, vals = map f [0..<numel s]\<rparr>"

text \<open>\<^verbatim>\<open>t.shape[i]\<close>.\<close>

definition shape_index :: "'a tensor \<Rightarrow> nat \<Rightarrow> error + nat" where
  "shape_index t i = list_index (shape t) i"

text \<open>\<^verbatim>\<open>t[i]\<close> on a tensor selects along the first axis; a tensor without axes
  cannot be indexed.\<close>

definition select0 :: "'a tensor \<Rightarrow> nat \<Rightarrow> error + 'a tensor" where
  "select0 t i =
     (case shape t of
        [] \<Rightarrow> Inl IndexError
      | n # rest \<Rightarrow>
          if i < n then Inr \<lparr>shape = rest, vals = chunk (numel rest) i (vals t)\<rparr>
          else Inl IndexError)"

text \<open>
  \<^verbatim>\<open>torch.cat((a, b), dim=1)\<close>. A one-axis tensor of no entries (shape \<open>[0]\<close>) is
  skipped, as the library documents. Otherwise axis 1 must exist in the first tensor
  (IndexError), and the two tensors must have the same number of axes and agree on
  every axis but axis 1 (RuntimeError).
\<close>

definition cat_compatible :: "nat list \<Rightarrow> nat list \<Rightarrow> bool" where
  "cat_compatible sa sb \<longleftrightarrow>
     length sa = length sb \<and> take 1 sa = take 1 sb \<and> drop 2 sa = drop 2 sb"

definition cat_vals :: "'a tensor \<Rightarrow> 'a tensor \<Rightarrow> 'a list" where
  "cat_vals a b =
     concat (map (\<lambda>i. chunk (numel (tl (shape a))) i (vals a)
                      @ chunk (numel (tl (shape b))) i (vals b))
                 [0..<hd (shape a)])"

definition torch_cat :: "'a tensor \<Rightarrow> 'a tensor \<Rightarrow> error + 'a tensor" where
  "torch_cat a b =
     (if shape a = [0] \<and> shape b = [0] then Inr \<lparr>shape = [0], vals = []\<rparr>
      else if shape a = [0] then (if length (shape b) < 2 then Inl IndexError else Inr b)
      else if length (shape a) < 2 then Inl IndexError
      else if shape b = [0] then Inr a
      else if cat_compatible (shape a) (shape b) then
        Inr \<lparr>shape = hd (shape a) # (shape a ! 1 + shape b ! 1) # drop 2 (shape a),
             vals = cat_vals a b\<rparr>
      else Inl RuntimeError)"

text \<open>
  \<^verbatim>\<open>torch.stack(ts, dim)\<close> for \<open>dim = 0\<close> and \<open>dim = 1\<close>: the list must not be empty
  and all its tensors must have one shape (RuntimeError); the new axis must fit
  (IndexError).
\<close>

definition same_shapes :: "'a tensor list \<Rightarrow> bool" where
  "same_shapes ts \<longleftrightarrow> list_all (\<lambda>t. shape t = shape (hd ts)) ts"

definition torch_stack0 :: "'a tensor list \<Rightarrow> error + 'a tensor" where
  "torch_stack0 ts =
     (if ts = [] \<or> \<not> same_shapes ts then Inl RuntimeError
      else Inr \<lparr>shape = length ts # shape (hd ts), vals = concat (map vals ts)\<rparr>)"

definition torch_stack1 :: "'a tensor list \<Rightarrow> error + 'a tensor" where
  "torch_stack1 ts =
     (if ts = [] \<or> \<not> same_shapes ts then Inl RuntimeError
      else case shape (hd ts) of
        [] \<Rightarrow> Inl IndexError
      | n # rest \<Rightarrow>
          Inr \<lparr>shape = n # length ts # rest,
               vals = concat (map (\<lambda>i. concat (map (\<lambda>t. chunk (numel rest) i (vals t)) ts))
                                  [0..<n])\<rparr>)"

text \<open>
  \<^verbatim>\<open>einops.repeat(t, "b c h w -> (repeat b) c h w", repeat=r)\<close>: the tensor must have
  four axes; the batch axis becomes \<open>r\<close> copies of the whole batch, one after another.
\<close>

definition einops_repeat :: "'a tensor \<Rightarrow> nat \<Rightarrow> error + 'a tensor" where
  "einops_repeat t r =
     (case shape t of
        [b, c, h, w] \<Rightarrow> Inr \<lparr>shape = [r * b, c, h, w], vals = concat (replicate r (vals t))\<rparr>
      | _ \<Rightarrow> Inl EinopsError)"

text \<open>
  The latent argument of \<^verbatim>\<open>forward\<close> as Python passes it: one tensor, or a list of
  tensors. \<open>latent_index\<close> is \<^verbatim>\<open>latent_dim[k]\<close>; \<open>latent_repeat\<close> is the call of
  \<^verbatim>\<open>einops.repeat\<close>, which stacks a list of tensors along a new first axis before it
  reads the pattern and refuses an empty list.
\<close>

datatype 'a latent = LTensor "'a tensor" | LList "'a tensor list"

definition latent_index :: "'a latent \<Rightarrow> nat \<Rightarrow> error + 'a tensor" where
  "latent_index l k = (case l of LTensor t \<Rightarrow> select0 t k | LList ts \<Rightarrow> list_index ts k)"

definition latent_repeat :: "'a latent \<Rightarrow> nat \<Rightarrow> error + 'a tensor" where
  "latent_repeat l r =
     (case l of
        LTensor t \<Rightarrow> einops_repeat t r
      | LList ts \<Rightarrow>
          if ts = [] then Inl TypeError
          else bind_err (torch_stack0 ts) (\<lambda>t. einops_repeat t r))"

section \<open>The sub-modules\<close>

text \<open>
  A sub-module is the record of its constructor arguments; its learned numeric content
  is a kernel, a parameter of the model: \<open>k t i\<close> is the \<open>i\<close>-th entry (row-major) of
  the sub-module's result on the input \<open>t\<close>. The constructors of the sub-modules are
  not part of the two source files; the model lets each of them succeed and keep its
  arguments, so the model constructs a \<^verbatim>\<open>Sampler\<close> whenever Python does.
  The shape contracts below are those of tensors whose axes are all positive.
\<close>

type_synonym 'a kernel = "'a tensor \<Rightarrow> nat \<Rightarrow> 'a"

type_synonym 'a cell_kernel = "'a tensor \<Rightarrow> 'a tensor \<Rightarrow> nat \<Rightarrow> 'a"

text \<open>\<^verbatim>\<open>torch.nn.Conv2d(in_channels, out_channels, kernel_size=(1, 1))\<close>: a batch of
  \<open>in_channels\<close> feature maps becomes one of \<open>out_channels\<close> maps of the same size.\<close>

datatype conv2d = Conv2d int int

fun Conv2d_forward :: "conv2d \<Rightarrow> 'a kernel \<Rightarrow> 'a tensor \<Rightarrow> error + 'a tensor" where
  "Conv2d_forward (Conv2d in_channels out_channels) k t =
     (case shape t of
        [b, c, h, w] \<Rightarrow>
          if int c = in_channels then Inr (fill [b, nat out_channels, h, w] (k t))
          else Inl RuntimeError
      | _ \<Rightarrow> Inl RuntimeError)"

text \<open>\<^verbatim>\<open>spectral_norm(module)\<close> rescales the weight of the module it wraps; the
  module's channel arguments, hence its shape contract, are unchanged.\<close>

definition spectral_norm :: "conv2d \<Rightarrow> conv2d" where
  "spectral_norm m = m"

text \<open>\<^verbatim>\<open>torch.nn.BatchNorm2d(num_features)\<close>: four axes are expected (ValueError) and
  \<open>num_features\<close> channels (RuntimeError); the shape is kept.\<close>

datatype batchnorm2d = BatchNorm2d int

fun BatchNorm2d_forward :: "batchnorm2d \<Rightarrow> 'a kernel \<Rightarrow> 'a tensor \<Rightarrow> error + 'a tensor" where
  "BatchNorm2d_forward (BatchNorm2d num_features) k t =
     (case shape t of
        [b, c, h, w] \<Rightarrow>
          if int c = num_features then Inr (fill [b, c, h, w] (k t)) else Inl RuntimeError
      | _ \<Rightarrow> Inl ValueError)"

text \<open>\<^verbatim>\<open>F.relu\<close> acts on every entry; \<open>act\<close> is the rectifier on the entry type.\<close>

definition F_relu :: "('a \<Rightarrow> 'a) \<Rightarrow> 'a tensor \<Rightarrow> 'a tensor" where
  "F_relu act t = \<lparr>shape = shape t, vals = map act (vals t)\<rparr>"

text \<open>
  \<^verbatim>\<open>PixelShuffle(upscale_factor=r)\<close> on a tensor of four axes: the channel count must
  be a multiple of \<open>r * r\<close>; entry \<open>(n, c, y, x)\<close> of the result is entry
  \<open>(n, c * r * r + (y mod r) * r + x mod r, y div r, x div r)\<close> of the input.
\<close>

datatype pixelshuffle = PixelShuffle nat

definition shuffle_source :: "nat \<Rightarrow> nat \<Rightarrow> nat \<Rightarrow> nat \<Rightarrow> nat \<Rightarrow> nat" where
  "shuffle_source r c h w i =
     (let x = i mod (w * r);
          y = (i div (w * r)) mod (h * r);
          co = (i div (w * r * (h * r))) mod (c div (r * r));
          n = i div (w * r * (h * r) * (c div (r * r)))
      in ((n * c + (co * r * r + (y mod r) * r + x mod r)) * h + y div r) * w + x div r)"

fun PixelShuffle_forward :: "pixelshuffle \<Rightarrow> 'a tensor \<Rightarrow> error + 'a tensor" where
  "PixelShuffle_forward (PixelShuffle r) t =
     (case shape t of
        [b, c, h, w] \<Rightarrow>
          if c mod (r * r) = 0 then
            Inr (fill [b, c div (r * r), h * r, w * r]
                      (\<lambda>i. vals t ! shuffle_source r c h w i))
          else Inl RuntimeError
      | _ \<Rightarrow> Inl RuntimeError)"

text \<open>
  Modelled from the spec: \<^verbatim>\<open>GBlock\<close> of \<^verbatim>\<open>dgmr.common\<close>, which is not among the
  source files. The spec calls it a residual refinement block: it maps a batch of
  \<open>input_channels\<close> feature maps to \<open>output_channels\<close> maps of the same size.
\<close>

datatype gblock = GBlock int int

fun GBlock_forward :: "gblock \<Rightarrow> 'a kernel \<Rightarrow> 'a tensor \<Rightarrow> error + 'a tensor" where
  "GBlock_forward (GBlock input_channels output_channels) k t =
     (case shape t of
        [b, c, h, w] \<Rightarrow>
          if int c = input_channels then Inr (fill [b, nat output_channels, h, w] (k t))
          else Inl RuntimeError
      | _ \<Rightarrow> Inl RuntimeError)"

text \<open>
  Modelled from the spec: \<^verbatim>\<open>UpsampleGBlock\<close> of \<^verbatim>\<open>dgmr.common\<close>, which is not among
  the source files. The spec: an upsampling block that doubles height and width; its
  channel count goes from \<open>input_channels\<close> to \<open>output_channels\<close>.
\<close>

datatype upsample_gblock = UpsampleGBlock int int

fun UpsampleGBlock_forward ::
  "upsample_gblock \<Rightarrow> 'a kernel \<Rightarrow> 'a tensor \<Rightarrow> error + 'a tensor" where
  "UpsampleGBlock_forward (UpsampleGBlock input_channels output_channels) k t =
     (case shape t of
        [b, c, h, w] \<Rightarrow>
          if int c = input_channels
          then Inr (fill [b, nat output_channels, 2 * h, 2 * w] (k t))
          else Inl RuntimeError
      | _ \<Rightarrow> Inl RuntimeError)"

text \<open>
  Modelled from the spec: \<^verbatim>\<open>ConvGRU\<close> of \<^verbatim>\<open>dgmr.layers\<close>, which is not among the
  source files. The spec: given an ordered sequence of per-timestep input feature maps
  and one initial hidden state, it produces an ordered sequence of hidden-state feature
  maps of equal length, one per timestep, by a shared gated convolutional recurrence
  across the time axis. The channel contract is read off the constructor calls of the
  source: \<open>input_channels\<close> counts the channels of a timestep's input together with
  those of the hidden state, \<open>output_channels\<close> those of the hidden state; input and
  hidden state agree on batch, height and width.
\<close>

datatype convgru = ConvGRU int int nat

fun ConvGRUCell_forward ::
  "convgru \<Rightarrow> 'a cell_kernel \<Rightarrow> 'a tensor \<Rightarrow> 'a tensor \<Rightarrow> error + 'a tensor" where
  "ConvGRUCell_forward (ConvGRU input_channels output_channels kernel_size) k x prev_state =
     (case shape x of
        [b, cx, h, w] \<Rightarrow>
          if shape prev_state = [b, nat output_channels, h, w]
             \<and> 0 \<le> output_channels
             \<and> int cx + output_channels = input_channels
          then Inr (fill [b, nat output_channels, h, w] (k x prev_state))
          else Inl RuntimeError
      | _ \<Rightarrow> Inl RuntimeError)"

fun ConvGRU_forward ::
  "convgru \<Rightarrow> 'a cell_kernel \<Rightarrow> 'a tensor list \<Rightarrow> 'a tensor \<Rightarrow> error + 'a tensor list" where
  "ConvGRU_forward m k [] hidden_state = Inr []"
| "ConvGRU_forward m k (x # xs) hidden_state =
     bind_err (ConvGRUCell_forward m k x hidden_state) (\<lambda>output.
     bind_err (ConvGRU_forward m k xs output) (\<lambda>outputs.
     Inr (output # outputs)))"

text \<open>The learned content of a \<^verbatim>\<open>Sampler\<close>: one kernel for each sub-module, and the
  rectifier of the entry type.\<close>

record 'a weights =
  w_convGRU1 :: "'a cell_kernel"
  w_gru_conv_1x1 :: "'a kernel"
  w_g1 :: "'a kernel"
  w_up_g1 :: "'a kernel"
  w_convGRU2 :: "'a cell_kernel"
  w_gru_conv_1x1_2 :: "'a kernel"
  w_g2 :: "'a kernel"
  w_up_g2 :: "'a kernel"
  w_convGRU3 :: "'a cell_kernel"
  w_gru_conv_1x1_3 :: "'a kernel"
  w_g3 :: "'a kernel"
  w_up_g3 :: "'a kernel"
  w_convGRU4 :: "'a cell_kernel"
  w_gru_conv_1x1_4 :: "'a kernel"
  w_g4 :: "'a kernel"
  w_up_g4 :: "'a kernel"
  w_bn :: "'a kernel"
  w_relu :: "'a \<Rightarrow> 'a"
  w_conv_1x1 :: "'a kernel"

section \<open>The standard variant: \<^verbatim>\<open>dgmr_deterministic/dgmr/generators.py\<close>\<close>

text \<open>The attributes \<^verbatim>\<open>__init__\<close> sets (\<^verbatim>\<open>self.relu\<close> is never called by
  \<^verbatim>\<open>forward\<close> and has no arguments; it is left out).\<close>

record sampler =
  config :: pyval
  forecast_steps :: pyval
  convGRU1 :: convgru
  gru_conv_1x1 :: conv2d
  g1 :: gblock
  up_g1 :: upsample_gblock
  convGRU2 :: convgru
  gru_conv_1x1_2 :: conv2d
  g2 :: gblock
  up_g2 :: upsample_gblock
  convGRU3 :: convgru
  gru_conv_1x1_3 :: conv2d
  g3 :: gblock
  up_g3 :: upsample_gblock
  convGRU4 :: convgru
  gru_conv_1x1_4 :: conv2d
  g4 :: gblock
  up_g4 :: upsample_gblock
  bn :: batchnorm2d
  conv_1x1 :: conv2d
  depth2space :: pixelshuffle

text \<open>
  Lines 35 to 37: \<^verbatim>\<open>config = locals()\<close> without \<^verbatim>\<open>__class__\<close> and \<^verbatim>\<open>self\<close>, that is
  the four named arguments and the dictionary of the remaining keyword arguments.
\<close>

definition locals_config :: "int \<Rightarrow> int \<Rightarrow> int \<Rightarrow> int \<Rightarrow> pydict \<Rightarrow> pydict" where
  "locals_config forecast_steps0 latent_channels0 context_channels0 output_channels0 kwargs =
     [(''forecast_steps'', PInt forecast_steps0),
      (''latent_channels'', PInt latent_channels0),
      (''context_channels'', PInt context_channels0),
      (''output_channels'', PInt output_channels0),
      (''kwargs'', PDict kwargs)]"

text \<open>The sub-modules of lines 44 to 130, from the three channel counts.\<close>

definition Sampler_modules :: "pyval \<Rightarrow> pyval \<Rightarrow> int \<Rightarrow> int \<Rightarrow> int \<Rightarrow> sampler" where
  "Sampler_modules cfg steps latent_channels context_channels output_channels =
     \<lparr>config = cfg,
      forecast_steps = steps,
      convGRU1 = ConvGRU (latent_channels + context_channels) context_channels 3,
      gru_conv_1x1 = spectral_norm (Conv2d context_channels latent_channels),
      g1 = GBlock latent_channels latent_channels,
      up_g1 = UpsampleGBlock latent_channels (latent_channels div 2),
      convGRU2 = ConvGRU (latent_channels + context_channels div 2) (context_channels div 2) 3,
      gru_conv_1x1_2 = spectral_norm (Conv2d (context_channels div 2) (latent_channels div 2)),
      g2 = GBlock (latent_channels div 2) (latent_channels div 2),
      up_g2 = UpsampleGBlock (latent_channels div 2) (latent_channels div 4),
      convGRU3 =
        ConvGRU (latent_channels div 2 + context_channels div 4) (context_channels div 4) 3,
      gru_conv_1x1_3 = spectral_norm (Conv2d (context_channels div 4) (latent_channels div 4)),
      g3 = GBlock (latent_channels div 4) (latent_channels div 4),
      up_g3 = UpsampleGBlock (latent_channels div 4) (latent_channels div 8),
      convGRU4 =
        ConvGRU (latent_channels div 4 + context_channels div 8) (context_channels div 8) 3,
      gru_conv_1x1_4 = spectral_norm (Conv2d (context_channels div 8) (latent_channels div 8)),
      g4 = GBlock (latent_channels div 8) (latent_channels div 8),
      up_g4 = UpsampleGBlock (latent_channels div 8) (latent_channels div 16),
      bn = BatchNorm2d (latent_channels div 16),
      conv_1x1 = spectral_norm (Conv2d (latent_channels div 16) (4 * output_channels)),
      depth2space = PixelShuffle 2\<rparr>"

text \<open>
  \<^verbatim>\<open>Sampler.__init__\<close>. The stored configuration is the keyword argument \<^verbatim>\<open>config\<close>
  when there is one, else the dictionary of line 35; the four values are then read
  from the stored configuration (lines 38 to 42), not from the named arguments.
\<close>

definition Sampler_init :: "int \<Rightarrow> int \<Rightarrow> int \<Rightarrow> int \<Rightarrow> pydict \<Rightarrow> error + sampler" where
  "Sampler_init forecast_steps0 latent_channels0 context_channels0 output_channels0 kwargs =
     (let cfg = dict_get kwargs ''config''
                  (PDict (locals_config forecast_steps0 latent_channels0 context_channels0
                            output_channels0 kwargs))
      in bind_err (py_item cfg ''forecast_steps'') (\<lambda>steps.
         bind_err (py_item cfg ''latent_channels'') (\<lambda>lc.
         bind_err (py_item cfg ''context_channels'') (\<lambda>cc.
         bind_err (py_item cfg ''output_channels'') (\<lambda>oc.
         bind_err (as_int lc) (\<lambda>latent_channels.
         bind_err (as_int cc) (\<lambda>context_channels.
         bind_err (as_int oc) (\<lambda>output_channels.
         Inr (Sampler_modules cfg steps latent_channels context_channels
                output_channels)))))))))"

text \<open>
  Lines 160 to 163 (and 170 to 173, 180 to 183): the loop that builds the input
  sequence of a later layer. \<open>k\<close> is the index into the latent argument.
\<close>

fun cat_loop ::
  "'a latent \<Rightarrow> nat \<Rightarrow> 'a tensor list \<Rightarrow> nat list \<Rightarrow> 'a tensor list \<Rightarrow> error + 'a tensor list"
  where
  "cat_loop latent_dim k hidden_states [] input_states = Inr input_states"
| "cat_loop latent_dim k hidden_states (i # rest) input_states =
     bind_err (latent_index latent_dim k) (\<lambda>l.
     bind_err (list_index hidden_states i) (\<lambda>h.
     bind_err (torch_cat l h) (\<lambda>istate.
     cat_loop latent_dim k hidden_states rest (input_states @ [istate]))))"

definition Sampler_input_states ::
  "sampler \<Rightarrow> 'a latent \<Rightarrow> nat \<Rightarrow> 'a tensor list \<Rightarrow> error + 'a tensor list" where
  "Sampler_input_states s latent_dim k hidden_states =
     bind_err (py_range (forecast_steps s)) (\<lambda>r. cat_loop latent_dim k hidden_states r [])"

text \<open>Line 153: the input sequence of the first stage.\<close>

definition Sampler_first_input_states :: "sampler \<Rightarrow> 'a latent \<Rightarrow> error + 'a tensor list" where
  "Sampler_first_input_states s latent_dim =
     bind_err (latent_index latent_dim 3) (\<lambda>l. list_repeat l (forecast_steps s))"

text \<open>Lines 153 to 157, \<^verbatim>\<open># Layer 4 (bottom most)\<close>.\<close>

definition Sampler_layer4 ::
  "'a weights \<Rightarrow> sampler \<Rightarrow> 'a tensor list \<Rightarrow> 'a latent \<Rightarrow> error + 'a tensor list" where
  "Sampler_layer4 W s init_states latent_dim =
     bind_err (Sampler_first_input_states s latent_dim) (\<lambda>input_states.
     bind_err (list_index init_states 3) (\<lambda>init.
     bind_err (ConvGRU_forward (convGRU1 s) (w_convGRU1 W) input_states init) (\<lambda>hs.
     bind_err (map_err (Conv2d_forward (gru_conv_1x1 s) (w_gru_conv_1x1 W)) hs) (\<lambda>hs.
     bind_err (map_err (GBlock_forward (g1 s) (w_g1 W)) hs) (\<lambda>hs.
     map_err (UpsampleGBlock_forward (up_g1 s) (w_up_g1 W)) hs)))))"

text \<open>Lines 160 to 167, \<^verbatim>\<open># Layer 3.\<close>\<close>

definition Sampler_layer3 ::
  "'a weights \<Rightarrow> sampler \<Rightarrow> 'a tensor list \<Rightarrow> 'a latent \<Rightarrow> 'a tensor list
     \<Rightarrow> error + 'a tensor list" where
  "Sampler_layer3 W s init_states latent_dim hidden_states =
     bind_err (Sampler_input_states s latent_dim 2 hidden_states) (\<lambda>input_states.
     bind_err (list_index init_states 2) (\<lambda>init.
     bind_err (ConvGRU_forward (convGRU2 s) (w_convGRU2 W) input_states init) (\<lambda>hs.
     bind_err (map_err (Conv2d_forward (gru_conv_1x1_2 s) (w_gru_conv_1x1_2 W)) hs) (\<lambda>hs.
     bind_err (map_err (GBlock_forward (g2 s) (w_g2 W)) hs) (\<lambda>hs.
     map_err (UpsampleGBlock_forward (up_g2 s) (w_up_g2 W)) hs)))))"

text \<open>Lines 170 to 177, \<^verbatim>\<open># Layer 2.\<close>\<close>

definition Sampler_layer2 ::
  "'a weights \<Rightarrow> sampler \<Rightarrow> 'a tensor list \<Rightarrow> 'a latent \<Rightarrow> 'a tensor list
     \<Rightarrow> error + 'a tensor list" where
  "Sampler_layer2 W s init_states latent_dim hidden_states =
     bind_err (Sampler_input_states s latent_dim 1 hidden_states) (\<lambda>input_states.
     bind_err (list_index init_states 1) (\<lambda>init.
     bind_err (ConvGRU_forward (convGRU3 s) (w_convGRU3 W) input_states init) (\<lambda>hs.
     bind_err (map_err (Conv2d_forward (gru_conv_1x1_3 s) (w_gru_conv_1x1_3 W)) hs) (\<lambda>hs.
     bind_err (map_err (GBlock_forward (g3 s) (w_g3 W)) hs) (\<lambda>hs.
     map_err (UpsampleGBlock_forward (up_g3 s) (w_up_g3 W)) hs)))))"

text \<open>Lines 180 to 187, \<^verbatim>\<open># Layer 1 (top-most).\<close>\<close>

definition Sampler_layer1 ::
  "'a weights \<Rightarrow> sampler \<Rightarrow> 'a tensor list \<Rightarrow> 'a latent \<Rightarrow> 'a tensor list
     \<Rightarrow> error + 'a tensor list" where
  "Sampler_layer1 W s init_states latent_dim hidden_states =
     bind_err (Sampler_input_states s latent_dim 0 hidden_states) (\<lambda>input_states.
     bind_err (list_index init_states 0) (\<lambda>init.
     bind_err (ConvGRU_forward (convGRU4 s) (w_convGRU4 W) input_states init) (\<lambda>hs.
     bind_err (map_err (Conv2d_forward (gru_conv_1x1_4 s) (w_gru_conv_1x1_4 W)) hs) (\<lambda>hs.
     bind_err (map_err (GBlock_forward (g4 s) (w_g4 W)) hs) (\<lambda>hs.
     map_err (UpsampleGBlock_forward (up_g4 s) (w_up_g4 W)) hs)))))"

text \<open>Lines 190 to 192, \<^verbatim>\<open># Output layer.\<close>\<close>

definition Sampler_output_layer ::
  "'a weights \<Rightarrow> sampler \<Rightarrow> 'a tensor list \<Rightarrow> error + 'a tensor list" where
  "Sampler_output_layer W s hidden_states =
     bind_err (map_err (\<lambda>h. bind_err (BatchNorm2d_forward (bn s) (w_bn W) h)
                                (\<lambda>y. Inr (F_relu (w_relu W) y))) hidden_states) (\<lambda>hs.
     bind_err (map_err (Conv2d_forward (conv_1x1 s) (w_conv_1x1 W)) hs) (\<lambda>hs.
     map_err (PixelShuffle_forward (depth2space s)) hs))"

text \<open>\<^verbatim>\<open>Sampler.forward(ics, lcs)\<close>, lines 145 to 196.\<close>

definition Sampler_forward ::
  "'a weights \<Rightarrow> sampler \<Rightarrow> 'a tensor list \<Rightarrow> 'a latent \<Rightarrow> error + 'a tensor" where
  "Sampler_forward W s ics lcs =
     (let init_states = ics; latent_dim = lcs
      in bind_err (Sampler_layer4 W s init_states latent_dim) (\<lambda>hs.
         bind_err (Sampler_layer3 W s init_states latent_dim hs) (\<lambda>hs.
         bind_err (Sampler_layer2 W s init_states latent_dim hs) (\<lambda>hs.
         bind_err (Sampler_layer1 W s init_states latent_dim hs) (\<lambda>hs.
         bind_err (Sampler_output_layer W s hs) (\<lambda>hs.
         torch_stack1 hs))))))"

section \<open>The DCT variant: \<^verbatim>\<open>experiments/dgmr-dct/dgmr/generators.py\<close>\<close>

record sampler_dct =
  dct_config :: pyval
  dct_forecast_steps :: pyval
  dct_convGRU1 :: convgru
  dct_gru_conv_1x1 :: conv2d
  dct_g1 :: gblock
  dct_up_g1 :: upsample_gblock
  dct_convGRU2 :: convgru
  dct_gru_conv_1x1_2 :: conv2d
  dct_g2 :: gblock
  dct_up_g2 :: upsample_gblock
  dct_convGRU3 :: convgru
  dct_gru_conv_1x1_3 :: conv2d
  dct_g3 :: gblock
  dct_bn :: batchnorm2d
  dct_conv_1x1 :: conv2d

text \<open>The sub-modules of lines 48 to 147 of the DCT variant.\<close>

definition Sampler_dct_modules :: "pyval \<Rightarrow> pyval \<Rightarrow> int \<Rightarrow> int \<Rightarrow> int \<Rightarrow> sampler_dct" where
  "Sampler_dct_modules cfg steps latent_channels context_channels output_channels =
     \<lparr>dct_config = cfg,
      dct_forecast_steps = steps,
      dct_convGRU1 = ConvGRU (latent_channels + context_channels) context_channels 3,
      dct_gru_conv_1x1 = spectral_norm (Conv2d context_channels latent_channels),
      dct_g1 = GBlock latent_channels latent_channels,
      dct_up_g1 = UpsampleGBlock latent_channels (latent_channels div 2),
      dct_convGRU2 =
        ConvGRU (latent_channels div 2 + context_channels div 2) (context_channels div 2) 3,
      dct_gru_conv_1x1_2 =
        spectral_norm (Conv2d (context_channels div 2) (latent_channels div 2)),
      dct_g2 = GBlock (latent_channels div 2) (latent_channels div 2),
      dct_up_g2 = UpsampleGBlock (latent_channels div 2) (latent_channels div 4),
      dct_convGRU3 =
        ConvGRU (latent_channels div 4 + context_channels div 4) (context_channels div 4) 3,
      dct_gru_conv_1x1_3 =
        spectral_norm (Conv2d (context_channels div 4) (output_channels div 4)),
      dct_g3 = GBlock (output_channels div 4) (output_channels div 4),
      dct_bn = BatchNorm2d (output_channels div 4),
      dct_conv_1x1 = spectral_norm (Conv2d (output_channels div 4) (output_channels div 4))\<rparr>"

text \<open>\<^verbatim>\<open>Sampler.__init__\<close> of the DCT variant (lines 38 to 147).\<close>

definition Sampler_dct_init :: "int \<Rightarrow> int \<Rightarrow> int \<Rightarrow> int \<Rightarrow> pydict \<Rightarrow> error + sampler_dct" where
  "Sampler_dct_init forecast_steps0 latent_channels0 context_channels0 output_channels0 kwargs =
     (let cfg = dict_get kwargs ''config''
                  (PDict (locals_config forecast_steps0 latent_channels0 context_channels0
                            output_channels0 kwargs))
      in bind_err (py_item cfg ''forecast_steps'') (\<lambda>steps.
         bind_err (py_item cfg ''latent_channels'') (\<lambda>lc.
         bind_err (py_item cfg ''context_channels'') (\<lambda>cc.
         bind_err (py_item cfg ''output_channels'') (\<lambda>oc.
         bind_err (as_int lc) (\<lambda>latent_channels.
         bind_err (as_int cc) (\<lambda>context_channels.
         bind_err (as_int oc) (\<lambda>output_channels.
         Inr (Sampler_dct_modules cfg steps latent_channels context_channels
                output_channels)))))))))"

text \<open>Lines 166 to 171: the batch-repeated latent tensor, once for every forecast
  step.\<close>

definition Sampler_dct_first_input_states ::
  "sampler_dct \<Rightarrow> 'a tensor list \<Rightarrow> 'a latent \<Rightarrow> error + 'a tensor list" where
  "Sampler_dct_first_input_states s init_states latent_dim =
     bind_err (list_index init_states 0) (\<lambda>c0.
     bind_err (shape_index c0 0) (\<lambda>batch.
     bind_err (latent_repeat latent_dim batch) (\<lambda>latent.
     list_repeat latent (dct_forecast_steps s))))"

text \<open>Lines 175 to 178, \<^verbatim>\<open># Layer 4 (bottom most)\<close>.\<close>

definition Sampler_dct_layer4 ::
  "'a weights \<Rightarrow> sampler_dct \<Rightarrow> 'a tensor list \<Rightarrow> 'a tensor list \<Rightarrow> error + 'a tensor list"
  where
  "Sampler_dct_layer4 W s init_states hidden_states =
     bind_err (list_index init_states 2) (\<lambda>init.
     bind_err (ConvGRU_forward (dct_convGRU1 s) (w_convGRU1 W) hidden_states init) (\<lambda>hs.
     bind_err (map_err (Conv2d_forward (dct_gru_conv_1x1 s) (w_gru_conv_1x1 W)) hs) (\<lambda>hs.
     bind_err (map_err (GBlock_forward (dct_g1 s) (w_g1 W)) hs) (\<lambda>hs.
     map_err (UpsampleGBlock_forward (dct_up_g1 s) (w_up_g1 W)) hs))))"

text \<open>Lines 181 to 184, \<^verbatim>\<open># Layer 3.\<close>\<close>

definition Sampler_dct_layer3 ::
  "'a weights \<Rightarrow> sampler_dct \<Rightarrow> 'a tensor list \<Rightarrow> 'a tensor list \<Rightarrow> error + 'a tensor list"
  where
  "Sampler_dct_layer3 W s init_states hidden_states =
     bind_err (list_index init_states 1) (\<lambda>init.
     bind_err (ConvGRU_forward (dct_convGRU2 s) (w_convGRU2 W) hidden_states init) (\<lambda>hs.
     bind_err (map_err (Conv2d_forward (dct_gru_conv_1x1_2 s) (w_gru_conv_1x1_2 W)) hs) (\<lambda>hs.
     bind_err (map_err (GBlock_forward (dct_g2 s) (w_g2 W)) hs) (\<lambda>hs.
     map_err (UpsampleGBlock_forward (dct_up_g2 s) (w_up_g2 W)) hs))))"

text \<open>Lines 187 to 193, \<^verbatim>\<open># Layer 2.\<close> and the batch normalisation, rectifier and
  convolution that follow it.\<close>

definition Sampler_dct_layer2 ::
  "'a weights \<Rightarrow> sampler_dct \<Rightarrow> 'a tensor list \<Rightarrow> 'a tensor list \<Rightarrow> error + 'a tensor list"
  where
  "Sampler_dct_layer2 W s init_states hidden_states =
     bind_err (list_index init_states 0) (\<lambda>init.
     bind_err (ConvGRU_forward (dct_convGRU3 s) (w_convGRU3 W) hidden_states init) (\<lambda>hs.
     bind_err (map_err (Conv2d_forward (dct_gru_conv_1x1_3 s) (w_gru_conv_1x1_3 W)) hs) (\<lambda>hs.
     bind_err (map_err (GBlock_forward (dct_g3 s) (w_g3 W)) hs) (\<lambda>hs.
     bind_err (map_err (\<lambda>h. bind_err (BatchNorm2d_forward (dct_bn s) (w_bn W) h)
                                (\<lambda>y. Inr (F_relu (w_relu W) y))) hs) (\<lambda>hs.
     map_err (Conv2d_forward (dct_conv_1x1 s) (w_conv_1x1 W)) hs)))))"

text \<open>\<^verbatim>\<open>Sampler.forward(conditioning_states, latent_dim)\<close> of the DCT variant, lines
  166 to 208.\<close>

definition Sampler_dct_forward ::
  "'a weights \<Rightarrow> sampler_dct \<Rightarrow> 'a tensor list \<Rightarrow> 'a latent \<Rightarrow> error + 'a tensor" where
  "Sampler_dct_forward W s conditioning_states latent_dim =
     (let init_states = conditioning_states
      in bind_err (Sampler_dct_first_input_states s init_states latent_dim) (\<lambda>hs.
         bind_err (Sampler_dct_layer4 W s init_states hs) (\<lambda>hs.
         bind_err (Sampler_dct_layer3 W s init_states hs) (\<lambda>hs.
         bind_err (Sampler_dct_layer2 W s init_states hs) (\<lambda>hs.
         torch_stack1 hs)))))"

text \<open>The shape of a result, for statements about shapes alone.\<close>

definition result_shape :: "error + 'a tensor \<Rightarrow> error + nat list" where
  "result_shape r = (case r of Inl e \<Rightarrow> Inl e | Inr t \<Rightarrow> Inr (shape t))"

section \<open>Valid configurations and well-shaped inputs\<close>

text \<open>
  A configuration is valid when the forecast horizon is at least one step and every
  sub-module \<^verbatim>\<open>__init__\<close> builds has at least one channel: the standard variant
  divides \<open>latent_channels\<close> by 16 and \<open>context_channels\<close> by 8, the DCT variant
  divides all three channel counts by 4.
\<close>

definition valid_config :: "int \<Rightarrow> int \<Rightarrow> int \<Rightarrow> int \<Rightarrow> bool" where
  "valid_config T L C Oc \<longleftrightarrow> 1 \<le> T \<and> 16 \<le> L \<and> 8 \<le> C \<and> 1 \<le> Oc"

definition valid_dct_config :: "int \<Rightarrow> int \<Rightarrow> int \<Rightarrow> int \<Rightarrow> bool" where
  "valid_dct_config T L C Oc \<longleftrightarrow> 1 \<le> T \<and> 4 \<le> L \<and> 4 \<le> C \<and> 4 \<le> Oc"

text \<open>
  The inputs the sub-modules of the standard variant accept, for a batch of \<open>b\<close> and
  a coarsest context entry of \<open>h\<close> by \<open>w\<close>: four context tensors, largest first, each
  twice the size and half the channels of the next; and four latent tensors of the same
  sizes whose channels fill what the recurrent unit of that scale expects beside the
  previous stage's hidden state.
\<close>

definition context_shapes :: "int \<Rightarrow> nat \<Rightarrow> nat \<Rightarrow> nat \<Rightarrow> nat list list" where
  "context_shapes C b h w =
     [[b, nat (C div 8), 8 * h, 8 * w],
      [b, nat (C div 4), 4 * h, 4 * w],
      [b, nat (C div 2), 2 * h, 2 * w],
      [b, nat C, h, w]]"

definition latent_shapes :: "int \<Rightarrow> nat \<Rightarrow> nat \<Rightarrow> nat \<Rightarrow> nat list list" where
  "latent_shapes L b h w =
     [[b, nat (L div 4 - L div 8), 8 * h, 8 * w],
      [b, nat (L div 2 - L div 4), 4 * h, 4 * w],
      [b, nat (L - L div 2), 2 * h, 2 * w],
      [b, nat L, h, w]]"

definition well_shaped ::
  "int \<Rightarrow> int \<Rightarrow> nat \<Rightarrow> nat \<Rightarrow> nat \<Rightarrow> 'a tensor list \<Rightarrow> 'a latent \<Rightarrow> bool" where
  "well_shaped L C b h w ics lcs \<longleftrightarrow>
     0 < b \<and> 0 < h \<and> 0 < w
     \<and> map shape ics = context_shapes C b h w
     \<and> (case lcs of LTensor t \<Rightarrow> False | LList ls \<Rightarrow> map shape ls = latent_shapes L b h w)"

text \<open>
  The inputs the DCT variant accepts, again for a coarsest context entry of \<open>h\<close> by
  \<open>w\<close>: four context tensors, largest first, each twice the size of the next, of which
  entries 2, 1 and 0 carry \<open>context_channels\<close>, half and a quarter of it; and one
  latent tensor, a single sample of the size of context entry 2.
\<close>

definition well_shaped_dct ::
  "int \<Rightarrow> int \<Rightarrow> nat \<Rightarrow> nat \<Rightarrow> nat \<Rightarrow> 'a tensor list \<Rightarrow> 'a latent \<Rightarrow> bool" where
  "well_shaped_dct L C b h w ics lat \<longleftrightarrow>
     0 < b \<and> 0 < h \<and> 0 < w
     \<and> length ics = 4
     \<and> map shape (take 3 ics) =
         [[b, nat (C div 4), 8 * h, 8 * w],
          [b, nat (C div 2), 4 * h, 4 * w],
          [b, nat C, 2 * h, 2 * w]]
     \<and> length (shape (ics ! 3)) = 4
     \<and> take 1 (shape (ics ! 3)) = [b]
     \<and> drop 2 (shape (ics ! 3)) = [h, w]
     \<and> (case lat of LTensor t \<Rightarrow> shape t = [1, nat L, 2 * h, 2 * w] | LList ls \<Rightarrow> False)"

text \<open>Concrete tensors and weights for the examples: tensors of zeros, kernels that
  answer zero, the rectifier of the integers.\<close>

definition zeros :: "nat list \<Rightarrow> int tensor" where
  "zeros s = fill s (\<lambda>i. 0)"

definition zero_weights :: "int weights" where
  "zero_weights =
     \<lparr>w_convGRU1 = (\<lambda>x h i. 0), w_gru_conv_1x1 = (\<lambda>t i. 0), w_g1 = (\<lambda>t i. 0),
      w_up_g1 = (\<lambda>t i. 0),
      w_convGRU2 = (\<lambda>x h i. 0), w_gru_conv_1x1_2 = (\<lambda>t i. 0), w_g2 = (\<lambda>t i. 0),
      w_up_g2 = (\<lambda>t i. 0),
      w_convGRU3 = (\<lambda>x h i. 0), w_gru_conv_1x1_3 = (\<lambda>t i. 0), w_g3 = (\<lambda>t i. 0),
      w_up_g3 = (\<lambda>t i. 0),
      w_convGRU4 = (\<lambda>x h i. 0), w_gru_conv_1x1_4 = (\<lambda>t i. 0), w_g4 = (\<lambda>t i. 0),
      w_up_g4 = (\<lambda>t i. 0),
      w_bn = (\<lambda>t i. 0), w_relu = max 0, w_conv_1x1 = (\<lambda>t i. 0)\<rparr>"

text \<open>
  The end-to-end scenario of the default configuration (18 steps, 768 latent, 384
  context channels, 1 output channel) on a batch of one: context tensors of sizes 64,
  32, 16 and 8, and the latent tensors that go with them.
\<close>

definition example_ics :: "int tensor list" where
  "example_ics =
     [zeros [1, 48, 64, 64], zeros [1, 96, 32, 32], zeros [1, 192, 16, 16],
      zeros [1, 384, 8, 8]]"

definition example_lcs :: "int latent" where
  "example_lcs =
     LList [zeros [1, 96, 64, 64], zeros [1, 192, 32, 32], zeros [1, 384, 16, 16],
            zeros [1, 768, 8, 8]]"

text \<open>A scenario for the DCT variant, with 64 output channels: context tensors of
  sizes 64, 32, 16 and 8, one latent sample of size 16.\<close>

definition example_dct_ics :: "int tensor list" where
  "example_dct_ics =
     [zeros [1, 96, 64, 64], zeros [1, 192, 32, 32], zeros [1, 384, 16, 16],
      zeros [1, 768, 8, 8]]"

definition example_dct_latent :: "int latent" where
  "example_dct_latent = LTensor (zeros [1, 768, 16, 16])"

text \<open>The two modules of the scenarios: \<^verbatim>\<open>Sampler()\<close> of the standard variant with its
  default arguments, and \<^verbatim>\<open>Sampler(output_channels=64)\<close> of the DCT variant.\<close>

definition default_sampler :: sampler where
  "default_sampler =
     Sampler_modules (PDict (locals_config 18 768 384 1 [])) (PInt 18) 768 384 1"

definition example_dct_sampler :: sampler_dct where
  "example_dct_sampler =
     Sampler_dct_modules (PDict (locals_config 18 768 384 64 [])) (PInt 18) 768 384 64"

text \<open>
  A small scenario for the standard variant, with entries that tell the tensors apart:
  one forecast step, 8 latent and 8 context channels, a coarsest context entry of one
  pixel; the context tensors hold the number 9, the latent tensors the number 7.
\<close>

definition const_tensor :: "nat list \<Rightarrow> int \<Rightarrow> int tensor" where
  "const_tensor s v = fill s (\<lambda>i. v)"

definition small_sampler :: sampler where
  "small_sampler = Sampler_modules (PDict (locals_config 1 8 8 1 [])) (PInt 1) 8 8 1"

definition small_ics :: "int tensor list" where
  "small_ics =
     [const_tensor [1, 1, 8, 8] 9, const_tensor [1, 2, 4, 4] 9, const_tensor [1, 4, 2, 2] 9,
      const_tensor [1, 8, 1, 1] 9]"

definition small_lcs :: "int latent" where
  "small_lcs =
     LList [const_tensor [1, 1, 8, 8] 7, const_tensor [1, 2, 4, 4] 7,
            const_tensor [1, 4, 2, 2] 7, const_tensor [1, 8, 1, 1] 7]"

section \<open>Sequencing and configuration lemmas\<close>

lemma bind_err_Inr [simp]: "bind_err (Inr v) f = f v"
  by (simp add: bind_err_def)

lemma bind_err_Inl [simp]: "bind_err (Inl e) f = Inl e"
  by (simp add: bind_err_def)

lemma bind_err_eq_Inr:
  "bind_err m f = Inr y \<longleftrightarrow> (\<exists>v. m = Inr v \<and> f v = Inr y)"
  by (cases m) simp_all

lemma py_item_locals:
  "py_item (PDict (locals_config fs lc cc oc kw)) ''forecast_steps'' = Inr (PInt fs)"
  "py_item (PDict (locals_config fs lc cc oc kw)) ''latent_channels'' = Inr (PInt lc)"
  "py_item (PDict (locals_config fs lc cc oc kw)) ''context_channels'' = Inr (PInt cc)"
  "py_item (PDict (locals_config fs lc cc oc kw)) ''output_channels'' = Inr (PInt oc)"
  by (simp_all add: py_item_def locals_config_def)

lemma Sampler_init_plain:
  assumes "map_of kwargs ''config'' = None"
  shows "Sampler_init fs lc cc oc kwargs =
         Inr (Sampler_modules (PDict (locals_config fs lc cc oc kwargs)) (PInt fs) lc cc oc)"
  using assms by (simp add: Sampler_init_def dict_get_def py_item_locals as_int_def)

lemma Sampler_dct_init_plain:
  assumes "map_of kwargs ''config'' = None"
  shows "Sampler_dct_init fs lc cc oc kwargs =
         Inr (Sampler_dct_modules (PDict (locals_config fs lc cc oc kwargs)) (PInt fs) lc cc oc)"
  using assms by (simp add: Sampler_dct_init_def dict_get_def py_item_locals as_int_def)

section \<open>Shapes through the sub-modules\<close>

lemma shape_fill [simp]: "shape (fill s f) = s"
  by (simp add: fill_def)

lemma shape_F_relu [simp]: "shape (F_relu act t) = shape t"
  by (simp add: F_relu_def)

lemma map_err_Inr:
  assumes "\<And>x. x \<in> set xs \<Longrightarrow> f x = Inr (g x)"
  shows "map_err f xs = Inr (map g xs)"
  using assms by (induction xs) simp_all

lemma map_err_length:
  "map_err f xs = Inr ys \<Longrightarrow> length ys = length xs"
proof (induction xs arbitrary: ys)
  case Nil
  then show ?case by simp
next
  case (Cons x xs)
  then show ?case by (auto simp: bind_err_eq_Inr)
qed

lemma Conv2d_forward_map:
  assumes "\<forall>t\<in>set hs. shape t = [b, c, h, w]" and "int c = cin"
  shows "map_err (Conv2d_forward (Conv2d cin cout) k) hs
         = Inr (map (\<lambda>t. fill [b, nat cout, h, w] (k t)) hs)"
  using assms by (intro map_err_Inr) simp

lemma GBlock_forward_map:
  assumes "\<forall>t\<in>set hs. shape t = [b, c, h, w]" and "int c = cin"
  shows "map_err (GBlock_forward (GBlock cin cout) k) hs
         = Inr (map (\<lambda>t. fill [b, nat cout, h, w] (k t)) hs)"
  using assms by (intro map_err_Inr) simp

lemma UpsampleGBlock_forward_map:
  assumes "\<forall>t\<in>set hs. shape t = [b, c, h, w]" and "int c = cin"
  shows "map_err (UpsampleGBlock_forward (UpsampleGBlock cin cout) k) hs
         = Inr (map (\<lambda>t. fill [b, nat cout, 2 * h, 2 * w] (k t)) hs)"
  using assms by (intro map_err_Inr) simp

lemma ConvGRU_forward_shape:
  assumes "\<forall>x\<in>set xs. shape x = [b, cx, h, w]"
    and "shape init = [b, nat cout, h, w]"
    and "0 \<le> cout" and "int cx + cout = cin"
  shows "\<exists>hs. ConvGRU_forward (ConvGRU cin cout ks) k xs init = Inr hs
            \<and> length hs = length xs
            \<and> (\<forall>t\<in>set hs. shape t = [b, nat cout, h, w])"
  using assms
proof (induction xs arbitrary: init)
  case Nil
  then show ?case by simp
next
  case (Cons x xs)
  let ?o = "fill [b, nat cout, h, w] (k x init)"
  have cell: "ConvGRUCell_forward (ConvGRU cin cout ks) k x init = Inr ?o"
    using Cons.prems by simp
  have "\<exists>hs. ConvGRU_forward (ConvGRU cin cout ks) k xs ?o = Inr hs
            \<and> length hs = length xs
            \<and> (\<forall>t\<in>set hs. shape t = [b, nat cout, h, w])"
    using Cons.prems by (intro Cons.IH) simp_all
  then obtain hs where "ConvGRU_forward (ConvGRU cin cout ks) k xs ?o = Inr hs"
    and "length hs = length xs" and "\<forall>t\<in>set hs. shape t = [b, nat cout, h, w]"
    by blast
  then show ?case using cell by simp
qed

text \<open>One stage: recurrence, projection, refinement, upsampling.\<close>

lemma stage_shape:
  assumes xs: "\<forall>x\<in>set xs. shape x = [b, cx, h, w]"
    and init: "shape init = [b, nat co, h, w]"
    and co: "0 \<le> co" and ci: "int cx + co = ci" and cm: "0 \<le> cm"
  shows "\<exists>hs.
      bind_err (ConvGRU_forward (ConvGRU ci co ks) k1 xs init) (\<lambda>hs.
      bind_err (map_err (Conv2d_forward (Conv2d co cm) k2) hs) (\<lambda>hs.
      bind_err (map_err (GBlock_forward (GBlock cm cm) k3) hs) (\<lambda>hs.
      map_err (UpsampleGBlock_forward (UpsampleGBlock cm cu) k4) hs))) = Inr hs
      \<and> length hs = length xs
      \<and> (\<forall>t\<in>set hs. shape t = [b, nat cu, 2 * h, 2 * w])"
proof -
  obtain g where g: "ConvGRU_forward (ConvGRU ci co ks) k1 xs init = Inr g"
    and gl: "length g = length xs" and gs: "\<forall>t\<in>set g. shape t = [b, nat co, h, w]"
    using ConvGRU_forward_shape [OF xs init co ci] by blast
  let ?p = "map (\<lambda>t. fill [b, nat cm, h, w] (k2 t)) g"
  have p: "map_err (Conv2d_forward (Conv2d co cm) k2) g = Inr ?p"
    by (rule Conv2d_forward_map [OF gs]) (simp add: co)
  have ps: "\<forall>t\<in>set ?p. shape t = [b, nat cm, h, w]"
    by simp
  let ?r = "map (\<lambda>t. fill [b, nat cm, h, w] (k3 t)) ?p"
  have r: "map_err (GBlock_forward (GBlock cm cm) k3) ?p = Inr ?r"
    by (rule GBlock_forward_map [OF ps]) (simp add: cm)
  have rs: "\<forall>t\<in>set ?r. shape t = [b, nat cm, h, w]"
    by simp
  let ?u = "map (\<lambda>t. fill [b, nat cu, 2 * h, 2 * w] (k4 t)) ?r"
  have u: "map_err (UpsampleGBlock_forward (UpsampleGBlock cm cu) k4) ?r = Inr ?u"
    by (rule UpsampleGBlock_forward_map [OF rs]) (simp add: cm)
  show ?thesis
    using g p r u gl by simp
qed

lemma list_index_nth: "i < length xs \<Longrightarrow> list_index xs i = Inr (xs ! i)"
  by (simp add: list_index_def)

lemma torch_cat_shape4:
  assumes "shape l = [b, cl, h, w]" and "shape x = [b, cx, h, w]"
  shows "torch_cat l x = Inr \<lparr>shape = [b, cl + cx, h, w], vals = cat_vals l x\<rparr>"
  using assms by (simp add: torch_cat_def cat_compatible_def)

lemma cat_loop_map:
  assumes "latent_index latent_dim k = Inr l"
    and "\<forall>i\<in>set idx. i < length hs"
    and "\<forall>h\<in>set hs. torch_cat l h = Inr (f h)"
  shows "cat_loop latent_dim k hs idx acc = Inr (acc @ map (\<lambda>i. f (hs ! i)) idx)"
  using assms
proof (induction idx arbitrary: acc)
  case Nil
  then show ?case by simp
next
  case (Cons i idx)
  then show ?case by (simp add: list_index_nth)
qed

lemma Sampler_input_states_map:
  assumes "forecast_steps s = PInt T" and "length hs = nat T"
    and "latent_index latent_dim k = Inr l"
    and "\<forall>h\<in>set hs. torch_cat l h = Inr (f h)"
  shows "Sampler_input_states s latent_dim k hs = Inr (map f hs)"
proof -
  have "cat_loop latent_dim k hs [0..<length hs] [] = Inr ([] @ map (\<lambda>i. f (hs ! i)) [0..<length hs])"
    using assms by (intro cat_loop_map) simp_all
  moreover have "map (\<lambda>i. f (hs ! i)) [0..<length hs] = map f hs"
    by (rule nth_equalityI) simp_all
  ultimately show ?thesis
    using assms by (simp add: Sampler_input_states_def py_range_def)
qed

section \<open>Shapes through the standard variant\<close>

lemma Sampler_modules_sel:
  "config (Sampler_modules cfg st L C Oc) = cfg"
  "forecast_steps (Sampler_modules cfg st L C Oc) = st"
  "convGRU1 (Sampler_modules cfg st L C Oc) = ConvGRU (L + C) C 3"
  "gru_conv_1x1 (Sampler_modules cfg st L C Oc) = Conv2d C L"
  "g1 (Sampler_modules cfg st L C Oc) = GBlock L L"
  "up_g1 (Sampler_modules cfg st L C Oc) = UpsampleGBlock L (L div 2)"
  "convGRU2 (Sampler_modules cfg st L C Oc) = ConvGRU (L + C div 2) (C div 2) 3"
  "gru_conv_1x1_2 (Sampler_modules cfg st L C Oc) = Conv2d (C div 2) (L div 2)"
  "g2 (Sampler_modules cfg st L C Oc) = GBlock (L div 2) (L div 2)"
  "up_g2 (Sampler_modules cfg st L C Oc) = UpsampleGBlock (L div 2) (L div 4)"
  "convGRU3 (Sampler_modules cfg st L C Oc) = ConvGRU (L div 2 + C div 4) (C div 4) 3"
  "gru_conv_1x1_3 (Sampler_modules cfg st L C Oc) = Conv2d (C div 4) (L div 4)"
  "g3 (Sampler_modules cfg st L C Oc) = GBlock (L div 4) (L div 4)"
  "up_g3 (Sampler_modules cfg st L C Oc) = UpsampleGBlock (L div 4) (L div 8)"
  "convGRU4 (Sampler_modules cfg st L C Oc) = ConvGRU (L div 4 + C div 8) (C div 8) 3"
  "gru_conv_1x1_4 (Sampler_modules cfg st L C Oc) = Conv2d (C div 8) (L div 8)"
  "g4 (Sampler_modules cfg st L C Oc) = GBlock (L div 8) (L div 8)"
  "up_g4 (Sampler_modules cfg st L C Oc) = UpsampleGBlock (L div 8) (L div 16)"
  "bn (Sampler_modules cfg st L C Oc) = BatchNorm2d (L div 16)"
  "conv_1x1 (Sampler_modules cfg st L C Oc) = Conv2d (L div 16) (4 * Oc)"
  "depth2space (Sampler_modules cfg st L C Oc) = PixelShuffle 2"
  by (simp_all add: Sampler_modules_def spectral_norm_def)

lemma Sampler_dct_modules_sel:
  "dct_config (Sampler_dct_modules cfg st L C Oc) = cfg"
  "dct_forecast_steps (Sampler_dct_modules cfg st L C Oc) = st"
  "dct_convGRU1 (Sampler_dct_modules cfg st L C Oc) = ConvGRU (L + C) C 3"
  "dct_gru_conv_1x1 (Sampler_dct_modules cfg st L C Oc) = Conv2d C L"
  "dct_g1 (Sampler_dct_modules cfg st L C Oc) = GBlock L L"
  "dct_up_g1 (Sampler_dct_modules cfg st L C Oc) = UpsampleGBlock L (L div 2)"
  "dct_convGRU2 (Sampler_dct_modules cfg st L C Oc) = ConvGRU (L div 2 + C div 2) (C div 2) 3"
  "dct_gru_conv_1x1_2 (Sampler_dct_modules cfg st L C Oc) = Conv2d (C div 2) (L div 2)"
  "dct_g2 (Sampler_dct_modules cfg st L C Oc) = GBlock (L div 2) (L div 2)"
  "dct_up_g2 (Sampler_dct_modules cfg st L C Oc) = UpsampleGBlock (L div 2) (L div 4)"
  "dct_convGRU3 (Sampler_dct_modules cfg st L C Oc) = ConvGRU (L div 4 + C div 4) (C div 4) 3"
  "dct_gru_conv_1x1_3 (Sampler_dct_modules cfg st L C Oc) = Conv2d (C div 4) (Oc div 4)"
  "dct_g3 (Sampler_dct_modules cfg st L C Oc) = GBlock (Oc div 4) (Oc div 4)"
  "dct_bn (Sampler_dct_modules cfg st L C Oc) = BatchNorm2d (Oc div 4)"
  "dct_conv_1x1 (Sampler_dct_modules cfg st L C Oc) = Conv2d (Oc div 4) (Oc div 4)"
  by (simp_all add: Sampler_dct_modules_def spectral_norm_def)

lemma stage_shape_fields:
  assumes "gru = ConvGRU ci co ks" and "conv = Conv2d co cm"
    and "g = GBlock cm cm" and "up = UpsampleGBlock cm cu"
    and xs: "\<forall>x\<in>set xs. shape x = [b, cx, h, w]"
    and init: "shape init = [b, nat co, h, w]"
    and co: "0 \<le> co" and ci: "int cx + co = ci" and cm: "0 \<le> cm"
    and len: "length xs = n"
  shows "\<exists>hs.
      bind_err (ConvGRU_forward gru k1 xs init) (\<lambda>hs.
      bind_err (map_err (Conv2d_forward conv k2) hs) (\<lambda>hs.
      bind_err (map_err (GBlock_forward g k3) hs) (\<lambda>hs.
      map_err (UpsampleGBlock_forward up k4) hs))) = Inr hs
      \<and> length hs = n
      \<and> (\<forall>t\<in>set hs. shape t = [b, nat cu, 2 * h, 2 * w])"
  using stage_shape [OF xs init co ci cm, of ks k1 k2 k3 cu k4]
  unfolding assms(1-4) len .

lemma Sampler_first_input_states_eq:
  assumes "forecast_steps s = PInt T" and "latent_index latent_dim 3 = Inr l"
  shows "Sampler_first_input_states s latent_dim = Inr (replicate (nat T) l)"
  using assms by (simp add: Sampler_first_input_states_def list_repeat_def)

lemma Sampler_layer4_shape:
  assumes s: "s = Sampler_modules cfg (PInt T) L C Oc"
    and L: "0 \<le> L" and C: "0 \<le> C"
    and c3: "list_index ics 3 = Inr c3" "shape c3 = [b, nat C, h, w]"
    and l3: "latent_index lcs 3 = Inr l3" "shape l3 = [b, nat L, h, w]"
  shows "\<exists>hs. Sampler_layer4 W s ics lcs = Inr hs \<and> length hs = nat T
            \<and> (\<forall>t\<in>set hs. shape t = [b, nat (L div 2), 2 * h, 2 * w])"
proof -
  have steps: "forecast_steps s = PInt T"
    by (simp add: s Sampler_modules_sel)
  have inp: "Sampler_first_input_states s lcs = Inr (replicate (nat T) l3)"
    by (rule Sampler_first_input_states_eq [OF steps l3(1)])
  have xs: "\<forall>x\<in>set (replicate (nat T) l3). shape x = [b, nat L, h, w]"
    by (simp add: l3)
  have ci: "int (nat L) + C = L + C"
    using L by simp
  have m: "convGRU1 s = ConvGRU (L + C) C 3" "gru_conv_1x1 s = Conv2d C L"
    "g1 s = GBlock L L" "up_g1 s = UpsampleGBlock L (L div 2)"
    by (simp_all add: s Sampler_modules_sel)
  have len: "length (replicate (nat T) l3) = nat T"
    by simp
  show ?thesis
    unfolding Sampler_layer4_def inp c3(1) bind_err_Inr
    by (rule stage_shape_fields [OF m xs c3(2) C ci L len])
qed

lemma Sampler_layer3_shape:
  assumes s: "s = Sampler_modules cfg (PInt T) L C Oc"
    and L: "0 \<le> L" and C: "0 \<le> C"
    and hs: "length hs = nat T" "\<forall>t\<in>set hs. shape t = [b, nat (L div 2), h, w]"
    and c2: "list_index ics 2 = Inr c2" "shape c2 = [b, nat (C div 2), h, w]"
    and l2: "latent_index lcs 2 = Inr l2" "shape l2 = [b, nat (L - L div 2), h, w]"
  shows "\<exists>hs'. Sampler_layer3 W s ics lcs hs = Inr hs' \<and> length hs' = nat T
            \<and> (\<forall>t\<in>set hs'. shape t = [b, nat (L div 4), 2 * h, 2 * w])"
proof -
  let ?cx = "nat (L - L div 2) + nat (L div 2)"
  let ?f = "\<lambda>x. \<lparr>shape = [b, ?cx, h, w], vals = cat_vals l2 x\<rparr>"
  have steps: "forecast_steps s = PInt T"
    by (simp add: s Sampler_modules_sel)
  have cat: "\<forall>x\<in>set hs. torch_cat l2 x = Inr (?f x)"
    using hs(2) l2(2) by (simp add: torch_cat_shape4)
  have inp: "Sampler_input_states s lcs 2 hs = Inr (map ?f hs)"
    by (rule Sampler_input_states_map [OF steps hs(1) l2(1) cat])
  have xs: "\<forall>x\<in>set (map ?f hs). shape x = [b, ?cx, h, w]"
    by simp
  have co: "0 \<le> C div 2" and cm: "0 \<le> L div 2"
    using L C by simp_all
  have ci: "int ?cx + C div 2 = L + C div 2"
    using L by arith
  have m: "convGRU2 s = ConvGRU (L + C div 2) (C div 2) 3" "gru_conv_1x1_2 s = Conv2d (C div 2) (L div 2)"
    "g2 s = GBlock (L div 2) (L div 2)" "up_g2 s = UpsampleGBlock (L div 2) (L div 4)"
    by (simp_all add: s Sampler_modules_sel)
  have len: "length (map ?f hs) = nat T"
    by (simp add: hs(1))
  show ?thesis
    unfolding Sampler_layer3_def inp c2(1) bind_err_Inr
    by (rule stage_shape_fields [OF m xs c2(2) co ci cm len])
qed


lemma Sampler_layer2_shape:
  assumes s: "s = Sampler_modules cfg (PInt T) L C Oc"
    and L: "0 \<le> L" and C: "0 \<le> C"
    and hs: "length hs = nat T" "\<forall>t\<in>set hs. shape t = [b, nat (L div 4), h, w]"
    and c1: "list_index ics 1 = Inr c1" "shape c1 = [b, nat (C div 4), h, w]"
    and l1: "latent_index lcs 1 = Inr l1" "shape l1 = [b, nat (L div 2 - L div 4), h, w]"
  shows "\<exists>hs'. Sampler_layer2 W s ics lcs hs = Inr hs' \<and> length hs' = nat T
            \<and> (\<forall>t\<in>set hs'. shape t = [b, nat (L div 8), 2 * h, 2 * w])"
proof -
  let ?cx = "nat (L div 2 - L div 4) + nat (L div 4)"
  let ?f = "\<lambda>x. \<lparr>shape = [b, ?cx, h, w], vals = cat_vals l1 x\<rparr>"
  have steps: "forecast_steps s = PInt T"
    by (simp add: s Sampler_modules_sel)
  have cat: "\<forall>x\<in>set hs. torch_cat l1 x = Inr (?f x)"
    using hs(2) l1(2) by (simp add: torch_cat_shape4)
  have inp: "Sampler_input_states s lcs 1 hs = Inr (map ?f hs)"
    by (rule Sampler_input_states_map [OF steps hs(1) l1(1) cat])
  have xs: "\<forall>x\<in>set (map ?f hs). shape x = [b, ?cx, h, w]"
    by simp
  have co: "0 \<le> C div 4" and cm: "0 \<le> L div 4"
    using L C by simp_all
  have ci: "int ?cx + C div 4 = L div 2 + C div 4"
    using L by arith
  have m: "convGRU3 s = ConvGRU (L div 2 + C div 4) (C div 4) 3" "gru_conv_1x1_3 s = Conv2d (C div 4) (L div 4)"
    "g3 s = GBlock (L div 4) (L div 4)" "up_g3 s = UpsampleGBlock (L div 4) (L div 8)"
    by (simp_all add: s Sampler_modules_sel)
  have len: "length (map ?f hs) = nat T"
    by (simp add: hs(1))
  show ?thesis
    unfolding Sampler_layer2_def inp c1(1) bind_err_Inr
    by (rule stage_shape_fields [OF m xs c1(2) co ci cm len])
qed

lemma Sampler_layer1_shape:
  assumes s: "s = Sampler_modules cfg (PInt T) L C Oc"
    and L: "0 \<le> L" and C: "0 \<le> C"
    and hs: "length hs = nat T" "\<forall>t\<in>set hs. shape t = [b, nat (L div 8), h, w]"
    and c0: "list_index ics 0 = Inr c0" "shape c0 = [b, nat (C div 8), h, w]"
    and l0: "latent_index lcs 0 = Inr l0" "shape l0 = [b, nat (L div 4 - L div 8), h, w]"
  shows "\<exists>hs'. Sampler_layer1 W s ics lcs hs = Inr hs' \<and> length hs' = nat T
            \<and> (\<forall>t\<in>set hs'. shape t = [b, nat (L div 16), 2 * h, 2 * w])"
proof -
  let ?cx = "nat (L div 4 - L div 8) + nat (L div 8)"
  let ?f = "\<lambda>x. \<lparr>shape = [b, ?cx, h, w], vals = cat_vals l0 x\<rparr>"
  have steps: "forecast_steps s = PInt T"
    by (simp add: s Sampler_modules_sel)
  have cat: "\<forall>x\<in>set hs. torch_cat l0 x = Inr (?f x)"
    using hs(2) l0(2) by (simp add: torch_cat_shape4)
  have inp: "Sampler_input_states s lcs 0 hs = Inr (map ?f hs)"
    by (rule Sampler_input_states_map [OF steps hs(1) l0(1) cat])
  have xs: "\<forall>x\<in>set (map ?f hs). shape x = [b, ?cx, h, w]"
    by simp
  have co: "0 \<le> C div 8" and cm: "0 \<le> L div 8"
    using L C by simp_all
  have ci: "int ?cx + C div 8 = L div 4 + C div 8"
    using L by arith
  have m: "convGRU4 s = ConvGRU (L div 4 + C div 8) (C div 8) 3" "gru_conv_1x1_4 s = Conv2d (C div 8) (L div 8)"
    "g4 s = GBlock (L div 8) (L div 8)" "up_g4 s = UpsampleGBlock (L div 8) (L div 16)"
    by (simp_all add: s Sampler_modules_sel)
  have len: "length (map ?f hs) = nat T"
    by (simp add: hs(1))
  show ?thesis
    unfolding Sampler_layer1_def inp c0(1) bind_err_Inr
    by (rule stage_shape_fields [OF m xs c0(2) co ci cm len])
qed

lemma BatchNorm2d_relu_map:
  assumes "\<forall>t\<in>set hs. shape t = [b, c, h, w]" and "int c = n"
  shows "map_err (\<lambda>t. bind_err (BatchNorm2d_forward (BatchNorm2d n) k t)
                         (\<lambda>y. Inr (F_relu act y))) hs
         = Inr (map (\<lambda>t. F_relu act (fill [b, c, h, w] (k t))) hs)"
  using assms by (intro map_err_Inr) simp

lemma PixelShuffle_forward_map:
  assumes "\<forall>t\<in>set hs. shape t = [b, r * r * c, h, w]" and "0 < r"
  shows "map_err (PixelShuffle_forward (PixelShuffle r)) hs
         = Inr (map (\<lambda>t. fill [b, c, h * r, w * r]
                        (\<lambda>i. vals t ! shuffle_source r (r * r * c) h w i)) hs)"
  using assms by (intro map_err_Inr) simp

lemma Sampler_output_layer_shape:
  assumes s: "s = Sampler_modules cfg (PInt T) L C Oc"
    and L: "0 \<le> L"
    and hs: "\<forall>t\<in>set hs. shape t = [b, nat (L div 16), h, w]"
  shows "\<exists>hs'. Sampler_output_layer W s hs = Inr hs' \<and> length hs' = length hs
            \<and> (\<forall>t\<in>set hs'. shape t = [b, nat Oc, 2 * h, 2 * w])"
proof -
  let ?n = "map (\<lambda>t. F_relu (w_relu W) (fill [b, nat (L div 16), h, w] (w_bn W t))) hs"
  have n: "map_err (\<lambda>t. bind_err (BatchNorm2d_forward (BatchNorm2d (L div 16)) (w_bn W) t)
                         (\<lambda>y. Inr (F_relu (w_relu W) y))) hs = Inr ?n"
    by (rule BatchNorm2d_relu_map [OF hs]) (simp add: L)
  have ns: "\<forall>t\<in>set ?n. shape t = [b, nat (L div 16), h, w]"
    by simp
  let ?c = "map (\<lambda>t. fill [b, nat (4 * Oc), h, w] (w_conv_1x1 W t)) ?n"
  have c: "map_err (Conv2d_forward (Conv2d (L div 16) (4 * Oc)) (w_conv_1x1 W)) ?n = Inr ?c"
    by (rule Conv2d_forward_map [OF ns]) (simp add: L)
  have four: "nat (4 * Oc) = 2 * 2 * nat Oc"
    by simp
  have cs: "\<forall>t\<in>set ?c. shape t = [b, 2 * 2 * nat Oc, h, w]"
    by (simp add: four)
  let ?p = "map (\<lambda>t. fill [b, nat Oc, h * 2, w * 2]
                  (\<lambda>i. vals t ! shuffle_source 2 (2 * 2 * nat Oc) h w i)) ?c"
  have p: "map_err (PixelShuffle_forward (PixelShuffle 2)) ?c = Inr ?p"
    by (rule PixelShuffle_forward_map [OF cs]) simp
  have m: "bn s = BatchNorm2d (L div 16)" "conv_1x1 s = Conv2d (L div 16) (4 * Oc)"
    "depth2space s = PixelShuffle 2"
    by (simp_all add: s Sampler_modules_sel)
  show ?thesis
    unfolding Sampler_output_layer_def m n bind_err_Inr c p
    by (simp add: mult.commute)
qed

lemma torch_stack1_shape:
  assumes "hs \<noteq> []" and "\<forall>t\<in>set hs. shape t = n # rest"
  shows "\<exists>out. torch_stack1 hs = Inr out \<and> shape out = n # length hs # rest"
proof -
  have "hd hs \<in> set hs"
    using assms(1) by simp
  then have hd: "shape (hd hs) = n # rest"
    using assms(2) by blast
  have "same_shapes hs"
    using assms(2) hd by (simp add: same_shapes_def list_all_iff)
  then show ?thesis
    using assms(1) hd by (simp add: torch_stack1_def)
qed


lemma Sampler_forward_shape:
  assumes s: "s = Sampler_modules cfg (PInt T) L C Oc"
    and T: "1 \<le> T" and L: "0 \<le> L" and C: "0 \<le> C"
    and c3: "list_index ics 3 = Inr c3" "shape c3 = [b, nat C, h, w]"
    and c2: "list_index ics 2 = Inr c2" "shape c2 = [b, nat (C div 2), 2 * h, 2 * w]"
    and c1: "list_index ics 1 = Inr c1" "shape c1 = [b, nat (C div 4), 4 * h, 4 * w]"
    and c0: "list_index ics 0 = Inr c0" "shape c0 = [b, nat (C div 8), 8 * h, 8 * w]"
    and l3: "latent_index lcs 3 = Inr l3" "shape l3 = [b, nat L, h, w]"
    and l2: "latent_index lcs 2 = Inr l2" "shape l2 = [b, nat (L - L div 2), 2 * h, 2 * w]"
    and l1: "latent_index lcs 1 = Inr l1"
            "shape l1 = [b, nat (L div 2 - L div 4), 4 * h, 4 * w]"
    and l0: "latent_index lcs 0 = Inr l0"
            "shape l0 = [b, nat (L div 4 - L div 8), 8 * h, 8 * w]"
  shows "\<exists>out. Sampler_forward W s ics lcs = Inr out
             \<and> shape out = [b, nat T, nat Oc, 32 * h, 32 * w]"
proof -
  obtain hs4 where r4: "Sampler_layer4 W s ics lcs = Inr hs4" and n4: "length hs4 = nat T"
    and s4: "\<forall>t\<in>set hs4. shape t = [b, nat (L div 2), 2 * h, 2 * w]"
    using Sampler_layer4_shape [OF s L C c3 l3] by blast
  obtain hs3 where r3: "Sampler_layer3 W s ics lcs hs4 = Inr hs3" and n3: "length hs3 = nat T"
    and s3': "\<forall>t\<in>set hs3. shape t = [b, nat (L div 4), 2 * (2 * h), 2 * (2 * w)]"
    using Sampler_layer3_shape [OF s L C n4 s4 c2 l2] by blast
  have s3: "\<forall>t\<in>set hs3. shape t = [b, nat (L div 4), 4 * h, 4 * w]"
    using s3' by simp
  obtain hs2 where r2: "Sampler_layer2 W s ics lcs hs3 = Inr hs2" and n2: "length hs2 = nat T"
    and s2': "\<forall>t\<in>set hs2. shape t = [b, nat (L div 8), 2 * (4 * h), 2 * (4 * w)]"
    using Sampler_layer2_shape [OF s L C n3 s3 c1 l1] by blast
  have s2: "\<forall>t\<in>set hs2. shape t = [b, nat (L div 8), 8 * h, 8 * w]"
    using s2' by simp
  obtain hs1 where r1: "Sampler_layer1 W s ics lcs hs2 = Inr hs1" and n1: "length hs1 = nat T"
    and s1: "\<forall>t\<in>set hs1. shape t = [b, nat (L div 16), 2 * (8 * h), 2 * (8 * w)]"
    using Sampler_layer1_shape [OF s L C n2 s2 c0 l0] by blast
  obtain hs0 where r0: "Sampler_output_layer W s hs1 = Inr hs0"
    and n0: "length hs0 = length hs1"
    and s0: "\<forall>t\<in>set hs0. shape t = [b, nat Oc, 2 * (2 * (8 * h)), 2 * (2 * (8 * w))]"
    using Sampler_output_layer_shape [OF s L s1] by blast
  have "hs0 \<noteq> []"
    using n0 n1 T by auto
  then obtain out where out: "torch_stack1 hs0 = Inr out"
    and so: "shape out = b # length hs0 # [nat Oc, 2 * (2 * (8 * h)), 2 * (2 * (8 * w))]"
    using torch_stack1_shape [OF _ s0] by blast
  have "Sampler_forward W s ics lcs = Inr out"
    by (simp add: Sampler_forward_def r4 r3 r2 r1 r0 out)
  moreover have "shape out = [b, nat T, nat Oc, 32 * h, 32 * w]"
    using so n0 n1 by simp
  ultimately show ?thesis by blast
qed

section \<open>Shapes through the DCT variant\<close>

lemma einops_repeat_shape4:
  assumes "shape t = [bl, c, h, w]"
  shows "einops_repeat t r
         = Inr \<lparr>shape = [r * bl, c, h, w], vals = concat (replicate r (vals t))\<rparr>"
  using assms by (simp add: einops_repeat_def)

lemma Sampler_dct_first_input_states_eq:
  assumes "dct_forecast_steps s = PInt T"
    and "list_index init_states 0 = Inr c0" and "shape c0 = b # rest"
    and "latent_repeat latent_dim b = Inr l"
  shows "Sampler_dct_first_input_states s init_states latent_dim = Inr (replicate (nat T) l)"
  using assms
  by (simp add: Sampler_dct_first_input_states_def shape_index_def list_index_def
      list_repeat_def)

lemma stage_dct_out_shape:
  assumes "gru = ConvGRU ci co ks" and "conv = Conv2d co cm"
    and "g = GBlock cm cm" and "norm = BatchNorm2d cm" and "conv2 = Conv2d cm cm"
    and xs: "\<forall>x\<in>set xs. shape x = [b, cx, h, w]"
    and init: "shape init = [b, nat co, h, w]"
    and co: "0 \<le> co" and ci: "int cx + co = ci" and cm: "0 \<le> cm"
    and len: "length xs = n"
  shows "\<exists>hs.
      bind_err (ConvGRU_forward gru k1 xs init) (\<lambda>hs.
      bind_err (map_err (Conv2d_forward conv k2) hs) (\<lambda>hs.
      bind_err (map_err (GBlock_forward g k3) hs) (\<lambda>hs.
      bind_err (map_err (\<lambda>h. bind_err (BatchNorm2d_forward norm k4 h)
                                 (\<lambda>y. Inr (F_relu act y))) hs) (\<lambda>hs.
      map_err (Conv2d_forward conv2 k5) hs)))) = Inr hs
      \<and> length hs = n
      \<and> (\<forall>t\<in>set hs. shape t = [b, nat cm, h, w])"
proof -
  obtain g0 where g0: "ConvGRU_forward (ConvGRU ci co ks) k1 xs init = Inr g0"
    and gl: "length g0 = length xs" and gs: "\<forall>t\<in>set g0. shape t = [b, nat co, h, w]"
    using ConvGRU_forward_shape [OF xs init co ci] by blast
  let ?p = "map (\<lambda>t. fill [b, nat cm, h, w] (k2 t)) g0"
  have p: "map_err (Conv2d_forward (Conv2d co cm) k2) g0 = Inr ?p"
    by (rule Conv2d_forward_map [OF gs]) (simp add: co)
  have ps: "\<forall>t\<in>set ?p. shape t = [b, nat cm, h, w]"
    by simp
  let ?r = "map (\<lambda>t. fill [b, nat cm, h, w] (k3 t)) ?p"
  have r: "map_err (GBlock_forward (GBlock cm cm) k3) ?p = Inr ?r"
    by (rule GBlock_forward_map [OF ps]) (simp add: cm)
  have rs: "\<forall>t\<in>set ?r. shape t = [b, nat cm, h, w]"
    by simp
  let ?n = "map (\<lambda>t. F_relu act (fill [b, nat cm, h, w] (k4 t))) ?r"
  have n: "map_err (\<lambda>h. bind_err (BatchNorm2d_forward (BatchNorm2d cm) k4 h)
                         (\<lambda>y. Inr (F_relu act y))) ?r = Inr ?n"
    by (rule BatchNorm2d_relu_map [OF rs]) (simp add: cm)
  have ns: "\<forall>t\<in>set ?n. shape t = [b, nat cm, h, w]"
    by simp
  let ?c = "map (\<lambda>t. fill [b, nat cm, h, w] (k5 t)) ?n"
  have c: "map_err (Conv2d_forward (Conv2d cm cm) k5) ?n = Inr ?c"
    by (rule Conv2d_forward_map [OF ns]) (simp add: cm)
  show ?thesis
    unfolding assms(1-5) g0 bind_err_Inr p r n c
    using gl len by simp
qed

lemma Sampler_dct_layer4_shape:
  assumes s: "s = Sampler_dct_modules cfg (PInt T) L C Oc"
    and L: "0 \<le> L" and C: "0 \<le> C"
    and hs: "length hs = nat T" "\<forall>t\<in>set hs. shape t = [b, nat L, h, w]"
    and c2: "list_index ics 2 = Inr c2" "shape c2 = [b, nat C, h, w]"
  shows "\<exists>hs'. Sampler_dct_layer4 W s ics hs = Inr hs' \<and> length hs' = nat T
            \<and> (\<forall>t\<in>set hs'. shape t = [b, nat (L div 2), 2 * h, 2 * w])"
proof -
  have m: "dct_convGRU1 s = ConvGRU (L + C) C 3" "dct_gru_conv_1x1 s = Conv2d C L"
    "dct_g1 s = GBlock L L" "dct_up_g1 s = UpsampleGBlock L (L div 2)"
    by (simp_all add: s Sampler_dct_modules_sel)
  have ci: "int (nat L) + C = L + C"
    using L by simp
  show ?thesis
    unfolding Sampler_dct_layer4_def c2(1) bind_err_Inr
    by (rule stage_shape_fields [OF m hs(2) c2(2) C ci L hs(1)])
qed

lemma Sampler_dct_layer3_shape:
  assumes s: "s = Sampler_dct_modules cfg (PInt T) L C Oc"
    and L: "0 \<le> L" and C: "0 \<le> C"
    and hs: "length hs = nat T" "\<forall>t\<in>set hs. shape t = [b, nat (L div 2), h, w]"
    and c1: "list_index ics 1 = Inr c1" "shape c1 = [b, nat (C div 2), h, w]"
  shows "\<exists>hs'. Sampler_dct_layer3 W s ics hs = Inr hs' \<and> length hs' = nat T
            \<and> (\<forall>t\<in>set hs'. shape t = [b, nat (L div 4), 2 * h, 2 * w])"
proof -
  have m: "dct_convGRU2 s = ConvGRU (L div 2 + C div 2) (C div 2) 3"
    "dct_gru_conv_1x1_2 s = Conv2d (C div 2) (L div 2)"
    "dct_g2 s = GBlock (L div 2) (L div 2)"
    "dct_up_g2 s = UpsampleGBlock (L div 2) (L div 4)"
    by (simp_all add: s Sampler_dct_modules_sel)
  have co: "0 \<le> C div 2" and cm: "0 \<le> L div 2"
    using L C by simp_all
  have ci: "int (nat (L div 2)) + C div 2 = L div 2 + C div 2"
    using L by simp
  show ?thesis
    unfolding Sampler_dct_layer3_def c1(1) bind_err_Inr
    by (rule stage_shape_fields [OF m hs(2) c1(2) co ci cm hs(1)])
qed

lemma Sampler_dct_layer2_shape:
  assumes s: "s = Sampler_dct_modules cfg (PInt T) L C Oc"
    and L: "0 \<le> L" and C: "0 \<le> C" and Oc: "0 \<le> Oc"
    and hs: "length hs = nat T" "\<forall>t\<in>set hs. shape t = [b, nat (L div 4), h, w]"
    and c0: "list_index ics 0 = Inr c0" "shape c0 = [b, nat (C div 4), h, w]"
  shows "\<exists>hs'. Sampler_dct_layer2 W s ics hs = Inr hs' \<and> length hs' = nat T
            \<and> (\<forall>t\<in>set hs'. shape t = [b, nat (Oc div 4), h, w])"
proof -
  have m: "dct_convGRU3 s = ConvGRU (L div 4 + C div 4) (C div 4) 3"
    "dct_gru_conv_1x1_3 s = Conv2d (C div 4) (Oc div 4)"
    "dct_g3 s = GBlock (Oc div 4) (Oc div 4)"
    "dct_bn s = BatchNorm2d (Oc div 4)"
    "dct_conv_1x1 s = Conv2d (Oc div 4) (Oc div 4)"
    by (simp_all add: s Sampler_dct_modules_sel)
  have co: "0 \<le> C div 4" and cm: "0 \<le> Oc div 4"
    using Oc C by simp_all
  have ci: "int (nat (L div 4)) + C div 4 = L div 4 + C div 4"
    using L by simp
  show ?thesis
    unfolding Sampler_dct_layer2_def c0(1) bind_err_Inr
    by (rule stage_dct_out_shape [OF m hs(2) c0(2) co ci cm hs(1)])
qed

lemma Sampler_dct_forward_shape:
  assumes s: "s = Sampler_dct_modules cfg (PInt T) L C Oc"
    and T: "1 \<le> T" and L: "0 \<le> L" and C: "0 \<le> C" and Oc: "0 \<le> Oc"
    and c2: "list_index ics 2 = Inr c2" "shape c2 = [b, nat C, h, w]"
    and c1: "list_index ics 1 = Inr c1" "shape c1 = [b, nat (C div 2), 2 * h, 2 * w]"
    and c0: "list_index ics 0 = Inr c0" "shape c0 = [b, nat (C div 4), 4 * h, 4 * w]"
    and l: "shape l = [1, nat L, h, w]"
  shows "\<exists>out. Sampler_dct_forward W s ics (LTensor l) = Inr out
             \<and> shape out = [b, nat T, nat (Oc div 4), 4 * h, 4 * w]"
proof -
  let ?l = "\<lparr>shape = [b, nat L, h, w], vals = concat (replicate b (vals l))\<rparr>"
  have steps: "dct_forecast_steps s = PInt T"
    by (simp add: s Sampler_dct_modules_sel)
  have rep: "latent_repeat (LTensor l) b = Inr ?l"
    by (simp add: latent_repeat_def einops_repeat_shape4 [OF l])
  have r5: "Sampler_dct_first_input_states s ics (LTensor l) = Inr (replicate (nat T) ?l)"
    by (rule Sampler_dct_first_input_states_eq [OF steps c0 rep])
  have n5: "length (replicate (nat T) ?l) = nat T"
    by simp
  have s5: "\<forall>t\<in>set (replicate (nat T) ?l). shape t = [b, nat L, h, w]"
    by simp
  obtain hs4 where r4: "Sampler_dct_layer4 W s ics (replicate (nat T) ?l) = Inr hs4"
    and n4: "length hs4 = nat T"
    and s4: "\<forall>t\<in>set hs4. shape t = [b, nat (L div 2), 2 * h, 2 * w]"
    using Sampler_dct_layer4_shape [OF s L C n5 s5 c2] by blast
  obtain hs3 where r3: "Sampler_dct_layer3 W s ics hs4 = Inr hs3" and n3: "length hs3 = nat T"
    and s3': "\<forall>t\<in>set hs3. shape t = [b, nat (L div 4), 2 * (2 * h), 2 * (2 * w)]"
    using Sampler_dct_layer3_shape [OF s L C n4 s4 c1] by blast
  have s3: "\<forall>t\<in>set hs3. shape t = [b, nat (L div 4), 4 * h, 4 * w]"
    using s3' by simp
  obtain hs2 where r2: "Sampler_dct_layer2 W s ics hs3 = Inr hs2" and n2: "length hs2 = nat T"
    and s2: "\<forall>t\<in>set hs2. shape t = [b, nat (Oc div 4), 4 * h, 4 * w]"
    using Sampler_dct_layer2_shape [OF s L C Oc n3 s3 c0] by blast
  have "hs2 \<noteq> []"
    using n2 T by auto
  then obtain out where out: "torch_stack1 hs2 = Inr out"
    and so: "shape out = b # length hs2 # [nat (Oc div 4), 4 * h, 4 * w]"
    using torch_stack1_shape [OF _ s2] by blast
  have "Sampler_dct_forward W s ics (LTensor l) = Inr out"
    by (simp add: Sampler_dct_forward_def r5 r4 r3 r2 out)
  moreover have "shape out = [b, nat T, nat (Oc div 4), 4 * h, 4 * w]"
    using so n2 by simp
  ultimately show ?thesis by blast
qed

section \<open>Valid configurations on well-shaped inputs\<close>

lemma shape_zeros [simp]: "shape (zeros s) = s"
  by (simp add: zeros_def)

lemma list_index_Cons:
  "list_index (x # xs) 0 = Inr x"
  "list_index (x # y # xs) 1 = Inr y"
  "list_index (x # y # xs) (Suc 0) = Inr y"
  "list_index (x # y # z # xs) 2 = Inr z"
  "list_index (x # y # z # u # xs) 3 = Inr u"
  by (simp_all add: list_index_def)

lemma Sampler_forward_valid:
  assumes v: "valid_config T L C Oc" and ws: "well_shaped L C b h w ics lcs"
  shows "\<exists>out. Sampler_forward W (Sampler_modules cfg (PInt T) L C Oc) ics lcs = Inr out
             \<and> shape out = [b, nat T, nat Oc, 32 * h, 32 * w]"
proof -
  obtain ls where lcs: "lcs = LList ls" and lsh: "map shape ls = latent_shapes L b h w"
    using ws by (cases lcs) (simp_all add: well_shaped_def)
  have csh: "map shape ics = context_shapes C b h w"
    using ws by (simp add: well_shaped_def)
  obtain c0 c1 c2 c3 where ics: "ics = [c0, c1, c2, c3]"
    and "shape c0 = [b, nat (C div 8), 8 * h, 8 * w]"
    and "shape c1 = [b, nat (C div 4), 4 * h, 4 * w]"
    and "shape c2 = [b, nat (C div 2), 2 * h, 2 * w]"
    and "shape c3 = [b, nat C, h, w]"
    using csh by (auto simp: context_shapes_def map_eq_Cons_conv)
  moreover obtain l0 l1 l2 l3 where ls: "ls = [l0, l1, l2, l3]"
    and "shape l0 = [b, nat (L div 4 - L div 8), 8 * h, 8 * w]"
    and "shape l1 = [b, nat (L div 2 - L div 4), 4 * h, 4 * w]"
    and "shape l2 = [b, nat (L - L div 2), 2 * h, 2 * w]"
    and "shape l3 = [b, nat L, h, w]"
    using lsh by (auto simp: latent_shapes_def map_eq_Cons_conv)
  moreover have "1 \<le> T" "0 \<le> L" "0 \<le> C"
    using v by (simp_all add: valid_config_def)
  ultimately show ?thesis
    by (intro Sampler_forward_shape [OF refl])
       (simp_all add: lcs latent_index_def list_index_Cons)
qed

lemma Sampler_dct_forward_valid:
  assumes v: "valid_dct_config T L C Oc" and ws: "well_shaped_dct L C b h w ics lat"
  shows "\<exists>out.
      Sampler_dct_forward W (Sampler_dct_modules cfg (PInt T) L C Oc) ics lat = Inr out
      \<and> shape out = [b, nat T, nat (Oc div 4), 8 * h, 8 * w]"
proof -
  obtain l where lat: "lat = LTensor l" and l: "shape l = [1, nat L, 2 * h, 2 * w]"
    using ws by (cases lat) (simp_all add: well_shaped_dct_def)
  have len: "length ics = 4"
    using ws by (simp add: well_shaped_dct_def)
  then obtain c0 c1 c2 c3 where ics: "ics = [c0, c1, c2, c3]"
    by (auto simp: length_Suc_conv numeral_eq_Suc)
  have sh: "shape c0 = [b, nat (C div 4), 4 * (2 * h), 4 * (2 * w)]"
    "shape c1 = [b, nat (C div 2), 2 * (2 * h), 2 * (2 * w)]"
    "shape c2 = [b, nat C, 2 * h, 2 * w]"
    using ws by (simp_all add: well_shaped_dct_def ics)
  have "1 \<le> T" "0 \<le> L" "0 \<le> C" "0 \<le> Oc"
    using v by (simp_all add: valid_dct_config_def)
  then have "\<exists>out.
      Sampler_dct_forward W (Sampler_dct_modules cfg (PInt T) L C Oc) ics (LTensor l) = Inr out
      \<and> shape out = [b, nat T, nat (Oc div 4), 4 * (2 * h), 4 * (2 * w)]"
    using sh l by (intro Sampler_dct_forward_shape [OF refl]) (simp_all add: ics list_index_Cons)
  then show ?thesis
    by (simp add: lat)
qed

lemma result_shape_Inr:
  "r = Inr out \<Longrightarrow> shape out = S \<Longrightarrow> result_shape r = Inr S"
  by (simp add: result_shape_def)

lemma example_valid: "valid_config 18 768 384 1"
  by (simp add: valid_config_def)

lemma example_well_shaped: "well_shaped 768 384 1 8 8 example_ics example_lcs"
  by (simp add: well_shaped_def example_ics_def example_lcs_def context_shapes_def
      latent_shapes_def)

lemma example_dct_valid: "valid_dct_config 18 768 384 64"
  by (simp add: valid_dct_config_def)

lemma example_dct_well_shaped:
  "well_shaped_dct 768 384 1 8 8 example_dct_ics example_dct_latent"
  by (simp add: well_shaped_dct_def example_dct_ics_def example_dct_latent_def)

lemma default_sampler_init: "Sampler_init 18 768 384 1 [] = Inr default_sampler"
  by (simp add: Sampler_init_plain default_sampler_def)

lemma example_dct_sampler_init: "Sampler_dct_init 18 768 384 64 [] = Inr example_dct_sampler"
  by (simp add: Sampler_dct_init_plain example_dct_sampler_def)

lemma example_forward_shape:
  "result_shape (Sampler_forward zero_weights default_sampler example_ics example_lcs)
   = Inr [1, 18, 1, 256, 256]"
proof -
  obtain out where
    "Sampler_forward zero_weights default_sampler example_ics example_lcs = Inr out"
    and "shape out = [1, nat 18, nat 1, 32 * 8, 32 * 8]"
    using Sampler_forward_valid [OF example_valid example_well_shaped]
    unfolding default_sampler_def by blast
  then show ?thesis
    by (simp add: result_shape_def)
qed

lemma example_dct_forward_shape:
  "result_shape
     (Sampler_dct_forward zero_weights example_dct_sampler example_dct_ics example_dct_latent)
   = Inr [1, 18, 16, 64, 64]"
proof -
  obtain out where
    "Sampler_dct_forward zero_weights example_dct_sampler example_dct_ics example_dct_latent
     = Inr out"
    and "shape out = [1, nat 18, nat (64 div 4), 8 * 8, 8 * 8]"
    using Sampler_dct_forward_valid [OF example_dct_valid example_dct_well_shaped]
    unfolding example_dct_sampler_def by blast
  then show ?thesis
    by (simp add: result_shape_def)
qed

lemma well_shaped_coarsest:
  "well_shaped L C b h w ics lcs \<Longrightarrow> shape (ics ! 3) = [b, nat C, h, w]"
proof -
  assume "well_shaped L C b h w ics lcs"
  then have m: "map shape ics = context_shapes C b h w"
    by (simp add: well_shaped_def)
  then have "length ics = 4"
    using length_map [of shape ics] by (simp add: context_shapes_def)
  then have "shape (ics ! 3) = map shape ics ! 3"
    by simp
  then show ?thesis
    by (simp add: m context_shapes_def)
qed

lemma well_shaped_dct_finest:
  "well_shaped_dct L C b h w ics lat \<Longrightarrow> shape (ics ! 0) = [b, nat (C div 4), 8 * h, 8 * w]"
proof -
  assume a: "well_shaped_dct L C b h w ics lat"
  then have "length ics = 4"
    by (simp add: well_shaped_dct_def)
  then have "shape (ics ! 0) = map shape (take 3 ics) ! 0"
    by simp
  then show ?thesis
    using a by (simp add: well_shaped_dct_def)
qed

lemma list_index_take: "i < n \<Longrightarrow> list_index (take n xs) i = list_index xs i"
  by (simp add: list_index_def)

lemma list_index_append: "i < length xs \<Longrightarrow> list_index (xs @ ys) i = list_index xs i"
  by (simp add: list_index_def nth_append)

lemma list_index_short: "length xs \<le> i \<Longrightarrow> list_index xs i = Inl IndexError"
  by (simp add: list_index_def)

lemma Sampler_forward_context_cong:
  assumes "list_index ics 0 = list_index ics' 0" and "list_index ics 1 = list_index ics' 1"
    and "list_index ics 2 = list_index ics' 2" and "list_index ics 3 = list_index ics' 3"
  shows "Sampler_forward W s ics lcs = Sampler_forward W s ics' lcs"
  using assms
  by (simp add: Sampler_forward_def Sampler_layer4_def Sampler_layer3_def Sampler_layer2_def
      Sampler_layer1_def)

lemma Sampler_dct_forward_context_cong:
  assumes "list_index ics 0 = list_index ics' 0" and "list_index ics 1 = list_index ics' 1"
    and "list_index ics 2 = list_index ics' 2"
  shows "Sampler_dct_forward W s ics lat = Sampler_dct_forward W s ics' lat"
  using assms
  by (simp add: Sampler_dct_forward_def Sampler_dct_first_input_states_def
      Sampler_dct_layer4_def Sampler_dct_layer3_def Sampler_dct_layer2_def)

lemma take_eq_list_index:
  assumes "take n xs = take n ys" and "i < n"
  shows "list_index xs i = list_index ys i"
proof -
  have "list_index (take n xs) i = list_index (take n ys) i"
    using assms(1) by simp
  then show ?thesis
    using assms(2) by (simp add: list_index_take)
qed

lemma list_index_update_other: "i \<noteq> j \<Longrightarrow> list_index (xs[j := t]) i = list_index xs i"
  by (simp add: list_index_def)

lemma Sampler_forward_short:
  assumes "length ics < 4"
  shows "Sampler_forward W s ics lcs =
         bind_err (Sampler_first_input_states s lcs) (\<lambda>xs. Inl IndexError)"
proof -
  have "list_index ics 3 = Inl IndexError"
    using assms by (simp add: list_index_def)
  then show ?thesis
    by (simp add: Sampler_forward_def Sampler_layer4_def bind_err_def split: sum.splits)
qed

lemma Sampler_dct_forward_short:
  assumes "length ics < 3"
  shows "Sampler_dct_forward W s ics lat =
         bind_err (Sampler_dct_first_input_states s ics lat) (\<lambda>xs. Inl IndexError)"
proof -
  have "list_index ics 2 = Inl IndexError"
    using assms by (simp add: list_index_def)
  then show ?thesis
    by (simp add: Sampler_dct_forward_def Sampler_dct_layer4_def bind_err_def
        split: sum.splits)
qed

lemma example_first_input_states:
  "Sampler_first_input_states default_sampler example_lcs
   = Inr (replicate 18 (zeros [1, 768, 8, 8]))"
  by (simp add: Sampler_first_input_states_def default_sampler_def Sampler_modules_sel
      example_lcs_def latent_index_def list_index_def list_repeat_def)

lemma example_dct_first_input_states:
  "Sampler_dct_first_input_states example_dct_sampler (take 2 example_dct_ics)
     example_dct_latent
   = Inr (replicate 18 \<lparr>shape = [1, 768, 16, 16],
                         vals = concat (replicate 1 (vals (zeros [1, 768, 16, 16])))\<rparr>)"
proof -
  have "latent_repeat example_dct_latent 1
        = Inr \<lparr>shape = [1 * 1, 768, 16, 16],
               vals = concat (replicate 1 (vals (zeros [1, 768, 16, 16])))\<rparr>"
    unfolding example_dct_latent_def latent_repeat_def latent.case
    by (rule einops_repeat_shape4) simp
  then show ?thesis
    by (simp add: Sampler_dct_first_input_states_def example_dct_sampler_def
        Sampler_dct_modules_sel example_dct_ics_def list_index_def shape_index_def
        list_repeat_def)
qed

lemma map_err_map: "map_err f (map g xs) = map_err (\<lambda>x. f (g x)) xs"
  by (induction xs) simp_all

lemma map_err_nth:
  "map_err (\<lambda>i. f (xs ! i)) [0..<length xs] = map_err f xs"
proof -
  have "map_err (\<lambda>i. f (xs ! i)) [0..<length xs] = map_err f (map (\<lambda>i. xs ! i) [0..<length xs])"
    by (simp add: map_err_map)
  then show ?thesis
    by (simp add: map_nth)
qed

lemma cat_loop_map_err:
  assumes "latent_index latent_dim k = Inr l" and "\<forall>i\<in>set idx. i < length hs"
  shows "cat_loop latent_dim k hs idx acc
         = bind_err (map_err (\<lambda>i. torch_cat l (hs ! i)) idx) (\<lambda>xs. Inr (acc @ xs))"
  using assms
proof (induction idx arbitrary: acc)
  case Nil
  then show ?case by simp
next
  case (Cons i idx)
  then show ?case
    by (cases "torch_cat l (hs ! i)")
       (simp_all add: list_index_nth bind_err_def split: sum.splits)
qed

lemma Sampler_input_states_map_err:
  assumes "forecast_steps s = PInt T" and "length hs = nat T"
    and "latent_index latent_dim k = Inr l"
  shows "Sampler_input_states s latent_dim k hs = map_err (torch_cat l) hs"
proof -
  have "cat_loop latent_dim k hs [0..<length hs] []
        = bind_err (map_err (\<lambda>i. torch_cat l (hs ! i)) [0..<length hs]) (\<lambda>xs. Inr ([] @ xs))"
    using assms(3) by (intro cat_loop_map_err) simp_all
  then have "cat_loop latent_dim k hs [0..<length hs] [] = map_err (torch_cat l) hs"
    by (simp add: map_err_nth bind_err_def split: sum.splits)
  then show ?thesis
    using assms(1,2) by (simp add: Sampler_input_states_def py_range_def)
qed

lemma map_err_nth_result:
  assumes "map_err f xs = Inr ys" and "i < length xs"
  shows "f (xs ! i) = Inr (ys ! i)"
  using assms
proof (induction xs arbitrary: ys i)
  case Nil
  then show ?case by simp
next
  case (Cons x xs)
  then obtain y ys' where y: "f x = Inr y" and ys': "map_err f xs = Inr ys'"
    and ys: "ys = y # ys'"
    by (auto simp: bind_err_eq_Inr)
  show ?case
  proof (cases i)
    case 0
    then show ?thesis by (simp add: y ys)
  next
    case (Suc j)
    then show ?thesis
      using Cons.IH [OF ys', of j] Cons.prems(2) by (simp add: ys)
  qed
qed

lemma example_lcs_index:
  "latent_index example_lcs 3 = Inr (zeros [1, 768, 8, 8])"
  "latent_index example_lcs 2 = Inr (zeros [1, 384, 16, 16])"
  "latent_index example_lcs 1 = Inr (zeros [1, 192, 32, 32])"
  "latent_index example_lcs 0 = Inr (zeros [1, 96, 64, 64])"
  by (simp_all add: example_lcs_def latent_index_def list_index_def)

lemma example_ics_index:
  "list_index example_ics 3 = Inr (zeros [1, 384, 8, 8])"
  "list_index example_ics 2 = Inr (zeros [1, 192, 16, 16])"
  "list_index example_ics 1 = Inr (zeros [1, 96, 32, 32])"
  "list_index example_ics 0 = Inr (zeros [1, 48, 64, 64])"
  by (simp_all add: example_ics_def list_index_def)

lemma example_dct_ics_index:
  "list_index example_dct_ics 2 = Inr (zeros [1, 384, 16, 16])"
  "list_index example_dct_ics 1 = Inr (zeros [1, 192, 32, 32])"
  "list_index example_dct_ics 0 = Inr (zeros [1, 96, 64, 64])"
  by (simp_all add: example_dct_ics_def list_index_def)

lemma example_chain:
  "\<exists>hs4 hs3 hs2 hs1.
     Sampler_layer4 zero_weights default_sampler example_ics example_lcs = Inr hs4
     \<and> length hs4 = nat 18
     \<and> Sampler_layer3 zero_weights default_sampler example_ics example_lcs hs4 = Inr hs3
     \<and> length hs3 = nat 18
     \<and> Sampler_layer2 zero_weights default_sampler example_ics example_lcs hs3 = Inr hs2
     \<and> length hs2 = nat 18
     \<and> Sampler_layer1 zero_weights default_sampler example_ics example_lcs hs2 = Inr hs1"
proof -
  note s = default_sampler_def
  have L: "(0::int) \<le> 768" and C: "(0::int) \<le> 384"
    by simp_all
  obtain hs4 where r4: "Sampler_layer4 zero_weights default_sampler example_ics example_lcs
      = Inr hs4" and n4: "length hs4 = nat 18"
    and s4: "\<forall>t\<in>set hs4. shape t = [1, nat (768 div 2), 2 * 8, 2 * 8]"
    using Sampler_layer4_shape [OF s L C example_ics_index(1) _ example_lcs_index(1),
        of 1 8 8 zero_weights]
    by auto
  obtain hs3 where r3: "Sampler_layer3 zero_weights default_sampler example_ics example_lcs hs4
      = Inr hs3" and n3: "length hs3 = nat 18"
    and s3: "\<forall>t\<in>set hs3. shape t = [1, nat (768 div 4), 2 * (2 * 8), 2 * (2 * 8)]"
    using Sampler_layer3_shape [OF s L C n4 s4 example_ics_index(2) _ example_lcs_index(2),
        of zero_weights]
    by auto
  obtain hs2 where r2: "Sampler_layer2 zero_weights default_sampler example_ics example_lcs hs3
      = Inr hs2" and n2: "length hs2 = nat 18"
    and s2: "\<forall>t\<in>set hs2. shape t = [1, nat (768 div 8), 2 * (2 * (2 * 8)), 2 * (2 * (2 * 8))]"
    using Sampler_layer2_shape [OF s L C n3 s3 example_ics_index(3) _ example_lcs_index(3),
        of zero_weights]
    by auto
  obtain hs1 where r1: "Sampler_layer1 zero_weights default_sampler example_ics example_lcs hs2
      = Inr hs1"
    using Sampler_layer1_shape [OF s L C n2 s2 example_ics_index(4) _ example_lcs_index(4),
        of zero_weights]
    by auto
  show ?thesis
    using r4 n4 r3 n3 r2 n2 r1 by blast
qed

lemma example_dct_chain:
  "\<exists>hs5 hs4 hs3 hs2.
     Sampler_dct_first_input_states example_dct_sampler example_dct_ics example_dct_latent
       = Inr hs5
     \<and> Sampler_dct_layer4 zero_weights example_dct_sampler example_dct_ics hs5 = Inr hs4
     \<and> Sampler_dct_layer3 zero_weights example_dct_sampler example_dct_ics hs4 = Inr hs3
     \<and> Sampler_dct_layer2 zero_weights example_dct_sampler example_dct_ics hs3 = Inr hs2"
proof -
  note s = example_dct_sampler_def
  have L: "(0::int) \<le> 768" and C: "(0::int) \<le> 384" and Oc: "(0::int) \<le> 64"
    by simp_all
  let ?l = "\<lparr>shape = [1, 768, 16, 16],
             vals = concat (replicate 1 (vals (zeros [1, 768, 16, 16])))\<rparr>"
  let ?hs5 = "replicate (nat 18) ?l"
  have rep: "latent_repeat example_dct_latent 1 = Inr ?l"
    by (simp add: example_dct_latent_def latent_repeat_def einops_repeat_def)
  have steps: "dct_forecast_steps example_dct_sampler = PInt 18"
    by (simp add: s Sampler_dct_modules_sel)
  have r5: "Sampler_dct_first_input_states example_dct_sampler example_dct_ics
      example_dct_latent = Inr ?hs5"
    by (rule Sampler_dct_first_input_states_eq [OF steps example_dct_ics_index(3) _ rep]) simp
  have n5: "length ?hs5 = nat 18"
    by simp
  have s5: "\<forall>t\<in>set ?hs5. shape t = [1, nat 768, 16, 16]"
    by simp
  obtain hs4 where r4: "Sampler_dct_layer4 zero_weights example_dct_sampler example_dct_ics ?hs5
      = Inr hs4" and n4: "length hs4 = nat 18"
    and s4: "\<forall>t\<in>set hs4. shape t = [1, nat (768 div 2), 2 * 16, 2 * 16]"
    using Sampler_dct_layer4_shape [OF s L C n5 s5 example_dct_ics_index(1), of zero_weights]
    by auto
  obtain hs3 where r3: "Sampler_dct_layer3 zero_weights example_dct_sampler example_dct_ics hs4
      = Inr hs3" and n3: "length hs3 = nat 18"
    and s3: "\<forall>t\<in>set hs3. shape t = [1, nat (768 div 4), 2 * (2 * 16), 2 * (2 * 16)]"
    using Sampler_dct_layer3_shape [OF s L C n4 s4 example_dct_ics_index(2), of zero_weights]
    by auto
  obtain hs2 where r2: "Sampler_dct_layer2 zero_weights example_dct_sampler example_dct_ics hs3
      = Inr hs2"
    using Sampler_dct_layer2_shape [OF s L C Oc n3 s3 example_dct_ics_index(3),
        of zero_weights]
    by auto
  show ?thesis
    using r5 r4 r3 r2 by blast
qed

lemma cat_loop_latent_cong:
  assumes "latent_index l k = latent_index l' k"
  shows "cat_loop l k hs idx acc = cat_loop l' k hs idx acc"
  using assms by (induction idx arbitrary: acc) simp_all

lemma Sampler_forward_latent_cong:
  assumes "latent_index l 0 = latent_index l' 0" and "latent_index l 1 = latent_index l' 1"
    and "latent_index l 2 = latent_index l' 2" and "latent_index l 3 = latent_index l' 3"
  shows "Sampler_forward W s ics l = Sampler_forward W s ics l'"
  using assms
  by (simp add: Sampler_forward_def Sampler_layer4_def Sampler_layer3_def Sampler_layer2_def
      Sampler_layer1_def Sampler_first_input_states_def Sampler_input_states_def
      cat_loop_latent_cong [of l _ l'])

lemma Sampler_forward_short_latent:
  assumes "length ls < 4"
  shows "Sampler_forward W s ics (LList ls) = Inl IndexError"
  using assms
  by (simp add: Sampler_forward_def Sampler_layer4_def Sampler_first_input_states_def
      latent_index_def list_index_def)

lemma ConvGRU_forward_batch_mismatch:
  assumes "shape x = [bx, c, h, w]" and "take 1 (shape init) = [b]" and "bx \<noteq> b"
  shows "ConvGRU_forward m k (x # xs) init = Inl RuntimeError"
proof (cases m)
  case (ConvGRU ci co ks)
  have "shape init \<noteq> [bx, nat co, h, w]"
    using assms(2,3) by auto
  then show ?thesis
    using assms(1) by (simp add: ConvGRU)
qed

lemma Sampler_dct_forward_batch_mismatch:
  assumes steps: "dct_forecast_steps d = PInt T" and T: "1 \<le> T"
    and c0: "list_index ics 0 = Inr c0" "shape c0 = B # rest"
    and c2: "list_index ics 2 = Inr c2" "take 1 (shape c2) = [B]"
    and t: "shape t = [bl, c, h, w]" and ne: "B * bl \<noteq> B"
  shows "Sampler_dct_forward W d ics (LTensor t) = Inl RuntimeError"
proof -
  let ?l = "\<lparr>shape = [B * bl, c, h, w], vals = concat (replicate B (vals t))\<rparr>"
  have rep: "latent_repeat (LTensor t) B = Inr ?l"
    by (simp add: latent_repeat_def einops_repeat_shape4 [OF t])
  have first: "Sampler_dct_first_input_states d ics (LTensor t) = Inr (replicate (nat T) ?l)"
    by (rule Sampler_dct_first_input_states_eq [OF steps c0 rep])
  obtain n where n: "nat T = Suc n"
    using T by (cases "nat T") simp_all
  have "ConvGRU_forward (dct_convGRU1 d) (w_convGRU1 W) (?l # replicate n ?l) c2
        = Inl RuntimeError"
    by (rule ConvGRU_forward_batch_mismatch [OF _ c2(2) ne]) simp
  then have "Sampler_dct_layer4 W d ics (replicate (nat T) ?l) = Inl RuntimeError"
    by (simp add: Sampler_dct_layer4_def c2(1) n)
  then show ?thesis
    by (simp add: Sampler_dct_forward_def first)
qed

lemma Sampler_dct_forward_latent_list:
  assumes c0: "list_index ics 0 = Inr c0" "shape c0 = B # rest"
    and ls: "ls \<noteq> []" "\<not> same_shapes ls"
  shows "Sampler_dct_forward W d ics (LList ls) = Inl RuntimeError"
  using assms
  by (simp add: Sampler_dct_forward_def Sampler_dct_first_input_states_def shape_index_def
      list_index_def latent_repeat_def torch_stack0_def)

section \<open>The configuration record\<close>

text \<open>
  Claim C9. A \<^verbatim>\<open>Sampler\<close> of either variant that is constructed from the named
  arguments \<open>forecast_steps\<close>, \<open>latent_channels\<close>, \<open>context_channels\<close> and
  \<open>output_channels\<close> (no keyword argument \<^verbatim>\<open>config\<close>) stores as its configuration the
  dictionary of its constructor arguments: the four names with exactly the values
  given, and under \<^verbatim>\<open>kwargs\<close> the remaining keyword arguments. Constructing a
  \<^verbatim>\<open>Sampler\<close> again from that record, passed as the keyword argument \<^verbatim>\<open>config\<close> with
  any named arguments whatever, yields the same module: the same stored configuration,
  the same forecast steps and the same sub-modules.
\<close>

theorem Sampler_config_round_trip:
  assumes "map_of kwargs ''config'' = None"
  shows "\<exists>s d. Sampler_init fs lc cc oc kwargs = Inr s
       \<and> Sampler_dct_init fs lc cc oc kwargs = Inr d
       \<and> config s = PDict (locals_config fs lc cc oc kwargs)
       \<and> dct_config d = config s
       \<and> py_item (config s) ''forecast_steps'' = Inr (PInt fs)
       \<and> py_item (config s) ''latent_channels'' = Inr (PInt lc)
       \<and> py_item (config s) ''context_channels'' = Inr (PInt cc)
       \<and> py_item (config s) ''output_channels'' = Inr (PInt oc)
       \<and> (\<forall>a b c e. Sampler_init a b c e [(''config'', config s)] = Inr s)
       \<and> (\<forall>a b c e. Sampler_dct_init a b c e [(''config'', dct_config d)] = Inr d)"
  using assms
  by (simp add: Sampler_init_def Sampler_dct_init_def dict_get_def py_item_locals as_int_def
      Sampler_modules_def Sampler_dct_modules_def)

theorem Sampler_config_round_trip_witness:
  "\<exists>s d. Sampler_init 18 768 384 1 [] = Inr s
       \<and> Sampler_dct_init 18 768 384 1 [] = Inr d
       \<and> config s = PDict (locals_config 18 768 384 1 [])
       \<and> dct_config d = config s
       \<and> py_item (config s) ''forecast_steps'' = Inr (PInt 18)
       \<and> py_item (config s) ''latent_channels'' = Inr (PInt 768)
       \<and> py_item (config s) ''context_channels'' = Inr (PInt 384)
       \<and> py_item (config s) ''output_channels'' = Inr (PInt 1)
       \<and> (\<forall>a b c e. Sampler_init a b c e [(''config'', config s)] = Inr s)
       \<and> (\<forall>a b c e. Sampler_dct_init a b c e [(''config'', dct_config d)] = Inr d)"
proof -
  have no_config: "map_of ([] :: pydict) ''config'' = None"
    by simp
  show ?thesis
    by (rule Sampler_config_round_trip [OF no_config])
qed

section \<open>The forecast horizon\<close>

text \<open>
  Claim C5. For every valid configuration, a \<^verbatim>\<open>Sampler\<close> built from it (standard or
  DCT variant) and called with a context list of length 4 and a correctly shaped latent
  input returns an output tensor; the tensor has five axes, and its axis 1, along which
  \<^verbatim>\<open>torch.stack(hidden_states, dim=1)\<close> stacks the frames, has exactly
  \<open>forecast_steps\<close> entries.
\<close>

theorem Sampler_forecast_axis:
  "(map_of kwargs ''config'' = None \<and> valid_config T L C Oc
      \<and> well_shaped L C b h w ics lcs \<longrightarrow>
      (\<exists>s out. Sampler_init T L C Oc kwargs = Inr s
         \<and> Sampler_forward W s ics lcs = Inr out
         \<and> length (shape out) = 5 \<and> int (shape out ! 1) = T))
   \<and> (map_of kwargs ''config'' = None \<and> valid_dct_config T L C Oc
      \<and> well_shaped_dct L C b h w ics lat \<longrightarrow>
      (\<exists>s out. Sampler_dct_init T L C Oc kwargs = Inr s
         \<and> Sampler_dct_forward W s ics lat = Inr out
         \<and> length (shape out) = 5 \<and> int (shape out ! 1) = T))"
proof (intro conjI impI)
  assume a: "map_of kwargs ''config'' = None \<and> valid_config T L C Oc
      \<and> well_shaped L C b h w ics lcs"
  let ?s = "Sampler_modules (PDict (locals_config T L C Oc kwargs)) (PInt T) L C Oc"
  have init: "Sampler_init T L C Oc kwargs = Inr ?s"
    using a by (simp add: Sampler_init_plain)
  obtain out where "Sampler_forward W ?s ics lcs = Inr out"
    and "shape out = [b, nat T, nat Oc, 32 * h, 32 * w]"
    using a Sampler_forward_valid [of T L C Oc b h w ics lcs W] by blast
  moreover have "1 \<le> T"
    using a by (simp add: valid_config_def)
  ultimately show "\<exists>s out. Sampler_init T L C Oc kwargs = Inr s
         \<and> Sampler_forward W s ics lcs = Inr out
         \<and> length (shape out) = 5 \<and> int (shape out ! 1) = T"
    using init by simp
next
  assume a: "map_of kwargs ''config'' = None \<and> valid_dct_config T L C Oc
      \<and> well_shaped_dct L C b h w ics lat"
  let ?s = "Sampler_dct_modules (PDict (locals_config T L C Oc kwargs)) (PInt T) L C Oc"
  have init: "Sampler_dct_init T L C Oc kwargs = Inr ?s"
    using a by (simp add: Sampler_dct_init_plain)
  obtain out where "Sampler_dct_forward W ?s ics lat = Inr out"
    and "shape out = [b, nat T, nat (Oc div 4), 8 * h, 8 * w]"
    using a Sampler_dct_forward_valid [of T L C Oc b h w ics lat W] by blast
  moreover have "1 \<le> T"
    using a by (simp add: valid_dct_config_def)
  ultimately show "\<exists>s out. Sampler_dct_init T L C Oc kwargs = Inr s
         \<and> Sampler_dct_forward W s ics lat = Inr out
         \<and> length (shape out) = 5 \<and> int (shape out ! 1) = T"
    using init by simp
qed

theorem Sampler_forecast_axis_witness:
  "(\<exists>s out. Sampler_init 18 768 384 1 [] = Inr s
      \<and> Sampler_forward zero_weights s example_ics example_lcs = Inr out
      \<and> length (shape out) = 5 \<and> int (shape out ! 1) = 18)
   \<and> (\<exists>s out. Sampler_dct_init 18 768 384 64 [] = Inr s
      \<and> Sampler_dct_forward zero_weights s example_dct_ics example_dct_latent = Inr out
      \<and> length (shape out) = 5 \<and> int (shape out ! 1) = 18)"
proof -
  have no_config: "map_of ([] :: pydict) ''config'' = None"
    by simp
  have std: "\<exists>s out. Sampler_init 18 768 384 1 [] = Inr s
      \<and> Sampler_forward zero_weights s example_ics example_lcs = Inr out
      \<and> length (shape out) = 5 \<and> int (shape out ! 1) = 18"
    using Sampler_forecast_axis [of "[]" 18 768 384 1 1 8 8 example_ics example_lcs
        zero_weights] no_config example_valid example_well_shaped
    by blast
  have dct: "\<exists>s out. Sampler_dct_init 18 768 384 64 [] = Inr s
      \<and> Sampler_dct_forward zero_weights s example_dct_ics example_dct_latent = Inr out
      \<and> length (shape out) = 5 \<and> int (shape out ! 1) = 18"
    using Sampler_forecast_axis [of "[]" 18 768 384 64 1 8 8 example_dct_ics _
        zero_weights example_dct_latent] no_config example_dct_valid example_dct_well_shaped
    by blast
  show ?thesis
    using std dct by blast
qed

section \<open>The spatial resolution of the output\<close>

text \<open>
  Claim C1, as amended. For every valid configuration and well-shaped input, the
  standard variant returns frames whose height and width are 32 times those of the
  coarsest context tensor (entry 3): four upsampling blocks and the final
  depth-to-space, five doublings in all. The DCT variant returns frames of 8 times the
  size of the coarsest context tensor, which is the size of context entry 0: its
  cascade starts at context entry 2 and has two upsampling blocks and no
  depth-to-space.
\<close>

theorem Sampler_spatial_resolution:
  "(map_of kwargs ''config'' = None \<and> valid_config T L C Oc
      \<and> well_shaped L C b h w ics lcs \<longrightarrow>
      (\<exists>s out. Sampler_init T L C Oc kwargs = Inr s
         \<and> Sampler_forward W s ics lcs = Inr out
         \<and> drop 2 (shape (ics ! 3)) = [h, w]
         \<and> drop 3 (shape out) = [32 * h, 32 * w]))
   \<and> (map_of kwargs ''config'' = None \<and> valid_dct_config T L C Oc
      \<and> well_shaped_dct L C b h w ics lat \<longrightarrow>
      (\<exists>s out. Sampler_dct_init T L C Oc kwargs = Inr s
         \<and> Sampler_dct_forward W s ics lat = Inr out
         \<and> drop 2 (shape (ics ! 3)) = [h, w]
         \<and> drop 2 (shape (ics ! 0)) = [8 * h, 8 * w]
         \<and> drop 3 (shape out) = [8 * h, 8 * w]))"
proof (intro conjI impI)
  assume a: "map_of kwargs ''config'' = None \<and> valid_config T L C Oc
      \<and> well_shaped L C b h w ics lcs"
  let ?s = "Sampler_modules (PDict (locals_config T L C Oc kwargs)) (PInt T) L C Oc"
  have init: "Sampler_init T L C Oc kwargs = Inr ?s"
    using a by (simp add: Sampler_init_plain)
  obtain out where "Sampler_forward W ?s ics lcs = Inr out"
    and "shape out = [b, nat T, nat Oc, 32 * h, 32 * w]"
    using a Sampler_forward_valid [of T L C Oc b h w ics lcs W] by blast
  moreover have "shape (ics ! 3) = [b, nat C, h, w]"
    using a well_shaped_coarsest by blast
  ultimately show "\<exists>s out. Sampler_init T L C Oc kwargs = Inr s
         \<and> Sampler_forward W s ics lcs = Inr out
         \<and> drop 2 (shape (ics ! 3)) = [h, w]
         \<and> drop 3 (shape out) = [32 * h, 32 * w]"
    using init by simp
next
  assume a: "map_of kwargs ''config'' = None \<and> valid_dct_config T L C Oc
      \<and> well_shaped_dct L C b h w ics lat"
  let ?s = "Sampler_dct_modules (PDict (locals_config T L C Oc kwargs)) (PInt T) L C Oc"
  have init: "Sampler_dct_init T L C Oc kwargs = Inr ?s"
    using a by (simp add: Sampler_dct_init_plain)
  obtain out where "Sampler_dct_forward W ?s ics lat = Inr out"
    and "shape out = [b, nat T, nat (Oc div 4), 8 * h, 8 * w]"
    using a Sampler_dct_forward_valid [of T L C Oc b h w ics lat W] by blast
  moreover have "shape (ics ! 0) = [b, nat (C div 4), 8 * h, 8 * w]"
    using a well_shaped_dct_finest by blast
  moreover have "drop 2 (shape (ics ! 3)) = [h, w]"
    using a by (simp add: well_shaped_dct_def)
  ultimately show "\<exists>s out. Sampler_dct_init T L C Oc kwargs = Inr s
         \<and> Sampler_dct_forward W s ics lat = Inr out
         \<and> drop 2 (shape (ics ! 3)) = [h, w]
         \<and> drop 2 (shape (ics ! 0)) = [8 * h, 8 * w]
         \<and> drop 3 (shape out) = [8 * h, 8 * w]"
    using init by simp
qed

theorem Sampler_spatial_resolution_witness:
  "(\<exists>s out. Sampler_init 18 768 384 1 [] = Inr s
      \<and> Sampler_forward zero_weights s example_ics example_lcs = Inr out
      \<and> drop 2 (shape (example_ics ! 3)) = [8, 8]
      \<and> drop 3 (shape out) = [32 * 8, 32 * 8])
   \<and> (\<exists>s out. Sampler_dct_init 18 768 384 64 [] = Inr s
      \<and> Sampler_dct_forward zero_weights s example_dct_ics example_dct_latent = Inr out
      \<and> drop 2 (shape (example_dct_ics ! 3)) = [8, 8]
      \<and> drop 2 (shape (example_dct_ics ! 0)) = [8 * 8, 8 * 8]
      \<and> drop 3 (shape out) = [8 * 8, 8 * 8])"
proof -
  have no_config: "map_of ([] :: pydict) ''config'' = None"
    by simp
  have std: "\<exists>s out. Sampler_init 18 768 384 1 [] = Inr s
      \<and> Sampler_forward zero_weights s example_ics example_lcs = Inr out
      \<and> drop 2 (shape (example_ics ! 3)) = [8, 8]
      \<and> drop 3 (shape out) = [32 * 8, 32 * 8]"
    using Sampler_spatial_resolution [of "[]" 18 768 384 1 1 8 8 example_ics example_lcs
        zero_weights] no_config example_valid example_well_shaped
    by blast
  have dct: "\<exists>s out. Sampler_dct_init 18 768 384 64 [] = Inr s
      \<and> Sampler_dct_forward zero_weights s example_dct_ics example_dct_latent = Inr out
      \<and> drop 2 (shape (example_dct_ics ! 3)) = [8, 8]
      \<and> drop 2 (shape (example_dct_ics ! 0)) = [8 * 8, 8 * 8]
      \<and> drop 3 (shape out) = [8 * 8, 8 * 8]"
    using Sampler_spatial_resolution [of "[]" 18 768 384 64 1 8 8 example_dct_ics _
        zero_weights example_dct_latent] no_config example_dct_valid example_dct_well_shaped
    by blast
  show ?thesis
    using std dct by blast
qed

text \<open>
  The claim as the spec states it gives the standard variant 16 times the coarsest
  size, and the shape (batch, 18, 1, 128, 128) to the default configuration on context
  sizes 64, 32, 16 and 8. On that input the standard variant returns frames of 256 by
  256.
\<close>

theorem Sampler_default_scenario_counterexample:
  "Sampler_init 18 768 384 1 [] = Inr default_sampler
   \<and> map shape example_ics
       = [[1, 48, 64, 64], [1, 96, 32, 32], [1, 192, 16, 16], [1, 384, 8, 8]]
   \<and> result_shape (Sampler_forward zero_weights default_sampler example_ics example_lcs)
       = Inr [1, 18, 1, 256, 256]
   \<and> result_shape (Sampler_forward zero_weights default_sampler example_ics example_lcs)
       \<noteq> Inr [1, 18, 1, 128, 128]"
proof -
  have "map shape example_ics
       = [[1, 48, 64, 64], [1, 96, 32, 32], [1, 192, 16, 16], [1, 384, 8, 8]]"
    by (simp add: example_ics_def)
  then show ?thesis
    by (simp add: default_sampler_init example_forward_shape)
qed

section \<open>The channels of the output\<close>

text \<open>
  Claim C2, as amended. For every valid configuration and well-shaped input, the channel
  axis of each frame of the output (axis 2 of the stacked tensor) is \<open>output_channels\<close>
  in the standard variant, and \<open>output_channels // 4\<close> in the DCT variant, whose last
  projection, refinement block, batch normalisation and convolution are all built with
  \<open>output_channels // 4\<close> channels.
\<close>

theorem Sampler_output_channels:
  "(map_of kwargs ''config'' = None \<and> valid_config T L C Oc
      \<and> well_shaped L C b h w ics lcs \<longrightarrow>
      (\<exists>s out. Sampler_init T L C Oc kwargs = Inr s
         \<and> Sampler_forward W s ics lcs = Inr out
         \<and> length (shape out) = 5 \<and> int (shape out ! 2) = Oc))
   \<and> (map_of kwargs ''config'' = None \<and> valid_dct_config T L C Oc
      \<and> well_shaped_dct L C b h w ics lat \<longrightarrow>
      (\<exists>s out. Sampler_dct_init T L C Oc kwargs = Inr s
         \<and> Sampler_dct_forward W s ics lat = Inr out
         \<and> length (shape out) = 5 \<and> int (shape out ! 2) = Oc div 4))"
proof (intro conjI impI)
  assume a: "map_of kwargs ''config'' = None \<and> valid_config T L C Oc
      \<and> well_shaped L C b h w ics lcs"
  let ?s = "Sampler_modules (PDict (locals_config T L C Oc kwargs)) (PInt T) L C Oc"
  have init: "Sampler_init T L C Oc kwargs = Inr ?s"
    using a by (simp add: Sampler_init_plain)
  obtain out where "Sampler_forward W ?s ics lcs = Inr out"
    and "shape out = [b, nat T, nat Oc, 32 * h, 32 * w]"
    using a Sampler_forward_valid [of T L C Oc b h w ics lcs W] by blast
  moreover have "1 \<le> Oc"
    using a by (simp add: valid_config_def)
  ultimately show "\<exists>s out. Sampler_init T L C Oc kwargs = Inr s
         \<and> Sampler_forward W s ics lcs = Inr out
         \<and> length (shape out) = 5 \<and> int (shape out ! 2) = Oc"
    using init by simp
next
  assume a: "map_of kwargs ''config'' = None \<and> valid_dct_config T L C Oc
      \<and> well_shaped_dct L C b h w ics lat"
  let ?s = "Sampler_dct_modules (PDict (locals_config T L C Oc kwargs)) (PInt T) L C Oc"
  have init: "Sampler_dct_init T L C Oc kwargs = Inr ?s"
    using a by (simp add: Sampler_dct_init_plain)
  obtain out where "Sampler_dct_forward W ?s ics lat = Inr out"
    and "shape out = [b, nat T, nat (Oc div 4), 8 * h, 8 * w]"
    using a Sampler_dct_forward_valid [of T L C Oc b h w ics lat W] by blast
  moreover have "4 \<le> Oc"
    using a by (simp add: valid_dct_config_def)
  ultimately show "\<exists>s out. Sampler_dct_init T L C Oc kwargs = Inr s
         \<and> Sampler_dct_forward W s ics lat = Inr out
         \<and> length (shape out) = 5 \<and> int (shape out ! 2) = Oc div 4"
    using init by simp
qed

theorem Sampler_output_channels_witness:
  "(\<exists>s out. Sampler_init 18 768 384 1 [] = Inr s
      \<and> Sampler_forward zero_weights s example_ics example_lcs = Inr out
      \<and> length (shape out) = 5 \<and> int (shape out ! 2) = 1)
   \<and> (\<exists>s out. Sampler_dct_init 18 768 384 64 [] = Inr s
      \<and> Sampler_dct_forward zero_weights s example_dct_ics example_dct_latent = Inr out
      \<and> length (shape out) = 5 \<and> int (shape out ! 2) = 64 div 4)"
proof -
  have no_config: "map_of ([] :: pydict) ''config'' = None"
    by simp
  have std: "\<exists>s out. Sampler_init 18 768 384 1 [] = Inr s
      \<and> Sampler_forward zero_weights s example_ics example_lcs = Inr out
      \<and> length (shape out) = 5 \<and> int (shape out ! 2) = 1"
    using Sampler_output_channels [of "[]" 18 768 384 1 1 8 8 example_ics example_lcs
        zero_weights] no_config example_valid example_well_shaped
    by blast
  have dct: "\<exists>s out. Sampler_dct_init 18 768 384 64 [] = Inr s
      \<and> Sampler_dct_forward zero_weights s example_dct_ics example_dct_latent = Inr out
      \<and> length (shape out) = 5 \<and> int (shape out ! 2) = 64 div 4"
    using Sampler_output_channels [of "[]" 18 768 384 64 1 8 8 example_dct_ics _
        zero_weights example_dct_latent] no_config example_dct_valid example_dct_well_shaped
    by blast
  show ?thesis
    using std dct by blast
qed

text \<open>
  The claim as the spec states it gives both variants exactly \<open>output_channels\<close>
  channels. A DCT \<^verbatim>\<open>Sampler\<close> configured with 64 output channels returns frames of 16
  channels.
\<close>

theorem Sampler_dct_output_channels_counterexample:
  "Sampler_dct_init 18 768 384 64 [] = Inr example_dct_sampler
   \<and> py_item (dct_config example_dct_sampler) ''output_channels'' = Inr (PInt 64)
   \<and> result_shape
       (Sampler_dct_forward zero_weights example_dct_sampler example_dct_ics
          example_dct_latent)
       = Inr [1, 18, 16, 64, 64]"
proof -
  have "py_item (dct_config example_dct_sampler) ''output_channels'' = Inr (PInt 64)"
    by (simp add: example_dct_sampler_def Sampler_dct_modules_sel py_item_locals)
  then show ?thesis
    by (simp add: example_dct_sampler_init example_dct_forward_shape)
qed

section \<open>The context entries the DCT variant reads\<close>

text \<open>
  Claim C10. In the DCT variant \<^verbatim>\<open>Sampler.forward\<close> reads only entries 0, 1 and 2 of
  the context list: its result on any context list is its result on the first three
  entries; replacing the fourth entry by any tensor, or passing any other list with the
  same first three entries, leaves the result unchanged; and on a valid configuration
  and a well-shaped input cut down to its first three context entries, the call returns
  a forecast tensor.
\<close>

theorem Sampler_dct_reads_three_entries:
  "Sampler_dct_forward W s ics lat = Sampler_dct_forward W s (take 3 ics) lat
   \<and> Sampler_dct_forward W s (ics[3 := t]) lat = Sampler_dct_forward W s ics lat
   \<and> (take 3 ics = take 3 ics' \<longrightarrow>
        Sampler_dct_forward W s ics lat = Sampler_dct_forward W s ics' lat)
   \<and> (map_of kwargs ''config'' = None \<and> valid_dct_config T L C Oc
        \<and> well_shaped_dct L C b h w ics lat \<longrightarrow>
        (\<exists>s' out. Sampler_dct_init T L C Oc kwargs = Inr s'
           \<and> length (take 3 ics) = 3
           \<and> Sampler_dct_forward W s' (take 3 ics) lat = Inr out))"
proof (intro conjI impI)
  show three: "Sampler_dct_forward W s ics lat = Sampler_dct_forward W s (take 3 ics) lat"
    for s :: sampler_dct
    by (rule Sampler_dct_forward_context_cong) (simp_all add: list_index_take)
  show "Sampler_dct_forward W s (ics[3 := t]) lat = Sampler_dct_forward W s ics lat"
    by (rule Sampler_dct_forward_context_cong) (simp_all add: list_index_update_other)
  show "Sampler_dct_forward W s ics lat = Sampler_dct_forward W s ics' lat"
    if "take 3 ics = take 3 ics'"
    using that by (intro Sampler_dct_forward_context_cong take_eq_list_index [of 3]) simp_all
  show "\<exists>s' out. Sampler_dct_init T L C Oc kwargs = Inr s'
           \<and> length (take 3 ics) = 3
           \<and> Sampler_dct_forward W s' (take 3 ics) lat = Inr out"
    if a: "map_of kwargs ''config'' = None \<and> valid_dct_config T L C Oc
        \<and> well_shaped_dct L C b h w ics lat"
  proof -
    let ?s = "Sampler_dct_modules (PDict (locals_config T L C Oc kwargs)) (PInt T) L C Oc"
    have init: "Sampler_dct_init T L C Oc kwargs = Inr ?s"
      using a by (simp add: Sampler_dct_init_plain)
    obtain out where "Sampler_dct_forward W ?s ics lat = Inr out"
      using a Sampler_dct_forward_valid [of T L C Oc b h w ics lat W] by blast
    then have "Sampler_dct_forward W ?s (take 3 ics) lat = Inr out"
      using three [of ?s] by simp
    moreover have "length (take 3 ics) = 3"
      using a by (simp add: well_shaped_dct_def)
    ultimately show ?thesis
      using init by blast
  qed
qed

theorem Sampler_dct_reads_three_entries_witness:
  "take 3 example_dct_ics = take 3 (example_dct_ics[3 := zeros [5, 7]])
   \<and> Sampler_dct_forward zero_weights example_dct_sampler example_dct_ics example_dct_latent
       = Sampler_dct_forward zero_weights example_dct_sampler
           (example_dct_ics[3 := zeros [5, 7]]) example_dct_latent
   \<and> (\<exists>s' out. Sampler_dct_init 18 768 384 64 [] = Inr s'
         \<and> length (take 3 example_dct_ics) = 3
         \<and> Sampler_dct_forward zero_weights s' (take 3 example_dct_ics) example_dct_latent
             = Inr out)"
proof -
  have no_config: "map_of ([] :: pydict) ''config'' = None"
    by simp
  have same: "take 3 example_dct_ics = take 3 (example_dct_ics[3 := zeros [5, 7]])"
    by (simp add: example_dct_ics_def)
  note inst = Sampler_dct_reads_three_entries [of zero_weights example_dct_sampler
      example_dct_ics example_dct_latent "zeros [5, 7]" "example_dct_ics[3 := zeros [5, 7]]"
      "[]" 18 768 384 64 1 8 8]
  show ?thesis
    using inst same no_config example_dct_valid example_dct_well_shaped by blast
qed

section \<open>Context lists of other lengths\<close>

text \<open>
  Claim C6, as amended. \<^verbatim>\<open>Sampler.forward\<close> has no check of the length of the context
  list. A list of fewer than 4 entries (standard variant) or fewer than 3 entries (DCT
  variant) makes the call fail and return no forecast tensor: with IndexError, at the
  first index that is missing, whenever the input sequence of the first stage could be
  built. Entries after the fourth (standard variant) or the third (DCT variant) are
  never read: a longer list gives the result of the list without them.
\<close>

theorem Sampler_context_length:
  "(length ics < 4 \<longrightarrow>
      (\<exists>e. Sampler_forward W s ics lcs = Inl e)
      \<and> (\<forall>xs. Sampler_first_input_states s lcs = Inr xs \<longrightarrow>
             Sampler_forward W s ics lcs = Inl IndexError))
   \<and> (length ics < 3 \<longrightarrow>
      (\<exists>e. Sampler_dct_forward W d ics lat = Inl e)
      \<and> (\<forall>xs. Sampler_dct_first_input_states d ics lat = Inr xs \<longrightarrow>
             Sampler_dct_forward W d ics lat = Inl IndexError))
   \<and> (4 \<le> length ics \<longrightarrow>
      Sampler_forward W s (ics @ extra) lcs = Sampler_forward W s ics lcs)
   \<and> (3 \<le> length ics \<longrightarrow>
      Sampler_dct_forward W d (ics @ extra) lat = Sampler_dct_forward W d ics lat)"
proof (intro conjI impI allI)
  assume short: "length ics < 4"
  show "\<exists>e. Sampler_forward W s ics lcs = Inl e"
    unfolding Sampler_forward_short [OF short]
    by (cases "Sampler_first_input_states s lcs") simp_all
  show "Sampler_forward W s ics lcs = Inl IndexError"
    if "Sampler_first_input_states s lcs = Inr xs" for xs
    unfolding Sampler_forward_short [OF short] using that by simp
next
  assume short: "length ics < 3"
  show "\<exists>e. Sampler_dct_forward W d ics lat = Inl e"
    unfolding Sampler_dct_forward_short [OF short]
    by (cases "Sampler_dct_first_input_states d ics lat") simp_all
  show "Sampler_dct_forward W d ics lat = Inl IndexError"
    if "Sampler_dct_first_input_states d ics lat = Inr xs" for xs
    unfolding Sampler_dct_forward_short [OF short] using that by simp
next
  assume "4 \<le> length ics"
  then show "Sampler_forward W s (ics @ extra) lcs = Sampler_forward W s ics lcs"
    by (intro Sampler_forward_context_cong list_index_append) auto
next
  assume "3 \<le> length ics"
  then show "Sampler_dct_forward W d (ics @ extra) lat = Sampler_dct_forward W d ics lat"
    by (intro Sampler_dct_forward_context_cong list_index_append) auto
qed

theorem Sampler_context_length_witness:
  "length (take 3 example_ics) < 4
   \<and> Sampler_first_input_states default_sampler example_lcs
       = Inr (replicate 18 (zeros [1, 768, 8, 8]))
   \<and> Sampler_forward zero_weights default_sampler (take 3 example_ics) example_lcs
       = Inl IndexError
   \<and> length (take 2 example_dct_ics) < 3
   \<and> Sampler_dct_forward zero_weights example_dct_sampler (take 2 example_dct_ics)
        example_dct_latent = Inl IndexError
   \<and> 4 \<le> length example_ics
   \<and> Sampler_forward zero_weights default_sampler (example_ics @ [zeros [1, 768, 4, 4]])
        example_lcs
       = Sampler_forward zero_weights default_sampler example_ics example_lcs
   \<and> 3 \<le> length (take 3 example_dct_ics)
   \<and> Sampler_dct_forward zero_weights example_dct_sampler
        (take 3 example_dct_ics @ [zeros [1, 768, 8, 8]]) example_dct_latent
       = Sampler_dct_forward zero_weights example_dct_sampler (take 3 example_dct_ics)
           example_dct_latent"
proof -
  have l1: "length (take 3 example_ics) < 4" and l2: "length (take 2 example_dct_ics) < 3"
    and l3: "4 \<le> length example_ics" and l4: "3 \<le> length (take 3 example_dct_ics)"
    by (simp_all add: example_ics_def example_dct_ics_def)
  show ?thesis
    using Sampler_context_length [of "take 3 example_ics" zero_weights default_sampler
        example_lcs example_dct_sampler example_dct_latent]
      Sampler_context_length [of "take 2 example_dct_ics" zero_weights default_sampler
        example_lcs example_dct_sampler example_dct_latent]
      Sampler_context_length [of example_ics zero_weights default_sampler
        example_lcs example_dct_sampler example_dct_latent "[zeros [1, 768, 4, 4]]"]
      Sampler_context_length [of "take 3 example_dct_ics" zero_weights default_sampler
        example_lcs example_dct_sampler example_dct_latent "[zeros [1, 768, 8, 8]]"]
      l1 l2 l3 l4 example_first_input_states example_dct_first_input_states
    by blast
qed

text \<open>
  The claim as the spec states it has every call with a context list of a length other
  than 4 fail. The standard variant returns a forecast on a list of 5 entries, the DCT
  variant on a list of 3.
\<close>

theorem Sampler_long_context_counterexample:
  "length (example_ics @ [zeros [1, 768, 4, 4]]) = 5
   \<and> result_shape
       (Sampler_forward zero_weights default_sampler (example_ics @ [zeros [1, 768, 4, 4]])
          example_lcs)
       = Inr [1, 18, 1, 256, 256]
   \<and> length (take 3 example_dct_ics) = 3
   \<and> result_shape
       (Sampler_dct_forward zero_weights example_dct_sampler (take 3 example_dct_ics)
          example_dct_latent)
       = Inr [1, 18, 16, 64, 64]"
proof -
  have "Sampler_forward zero_weights default_sampler (example_ics @ [zeros [1, 768, 4, 4]])
          example_lcs
        = Sampler_forward zero_weights default_sampler example_ics example_lcs"
    by (intro Sampler_forward_context_cong list_index_append)
       (simp_all add: example_ics_def)
  moreover have "Sampler_dct_forward zero_weights example_dct_sampler
          (take 3 example_dct_ics) example_dct_latent
        = Sampler_dct_forward zero_weights example_dct_sampler example_dct_ics
            example_dct_latent"
    by (rule Sampler_dct_forward_context_cong) (simp_all add: list_index_take)
  moreover have "length (example_ics @ [zeros [1, 768, 4, 4]]) = 5"
    and "length (take 3 example_dct_ics) = 3"
    by (simp_all add: example_ics_def example_dct_ics_def)
  ultimately show ?thesis
    by (simp add: example_forward_shape example_dct_forward_shape)
qed

section \<open>The input sequence of each recurrent unit\<close>

text \<open>
  Claim C3, as amended. In the standard variant, the input sequence of the recurrent
  unit of every stage after the first has length \<open>forecast_steps\<close>, and each of its
  elements is the channel-wise concatenation of the matching-scale entry of the latent
  list (entries 2, 1 and 0) with the previous stage's upsampled hidden state of that
  timestep; the matching-scale context tensor is the unit's initial hidden state and no
  part of its input. In its first stage every element equals entry 3 of the latent
  list, as it is given. In the DCT variant every element of the first stage's input
  equals the latent tensor with its batch repeated as often as context entry 0 has
  batch entries, and the later stages pass the previous stage's upsampled hidden states
  to their recurrent unit as they are, with the context tensor as initial hidden state.
\<close>

theorem Sampler_input_sequences:
  "(forecast_steps s = PInt T \<and> latent_index lcs 3 = Inr l3 \<longrightarrow>
      Sampler_first_input_states s lcs = Inr (replicate (nat T) l3))
   \<and> (forecast_steps s = PInt T \<and> length hs = nat T \<and> latent_index lcs k = Inr l \<longrightarrow>
      Sampler_input_states s lcs k hs = map_err (torch_cat l) hs
      \<and> (\<forall>xs. Sampler_input_states s lcs k hs = Inr xs \<longrightarrow>
            length xs = nat T \<and> (\<forall>i<length hs. torch_cat l (hs ! i) = Inr (xs ! i))))
   \<and> (Sampler_layer3 W s ics lcs hs = Inr out \<longrightarrow>
      (\<exists>xs init g. Sampler_input_states s lcs 2 hs = Inr xs
         \<and> list_index ics 2 = Inr init
         \<and> ConvGRU_forward (convGRU2 s) (w_convGRU2 W) xs init = Inr g))
   \<and> (Sampler_layer2 W s ics lcs hs = Inr out \<longrightarrow>
      (\<exists>xs init g. Sampler_input_states s lcs 1 hs = Inr xs
         \<and> list_index ics 1 = Inr init
         \<and> ConvGRU_forward (convGRU3 s) (w_convGRU3 W) xs init = Inr g))
   \<and> (Sampler_layer1 W s ics lcs hs = Inr out \<longrightarrow>
      (\<exists>xs init g. Sampler_input_states s lcs 0 hs = Inr xs
         \<and> list_index ics 0 = Inr init
         \<and> ConvGRU_forward (convGRU4 s) (w_convGRU4 W) xs init = Inr g))
   \<and> (dct_forecast_steps d = PInt T \<and> list_index ics 0 = Inr c0 \<and> shape c0 = B # rest
        \<and> shape t = [bl, c, h, w] \<longrightarrow>
      Sampler_dct_first_input_states d ics (LTensor t)
      = Inr (replicate (nat T)
               \<lparr>shape = [B * bl, c, h, w], vals = concat (replicate B (vals t))\<rparr>))
   \<and> (Sampler_dct_layer3 W d ics hs = Inr out \<longrightarrow>
      (\<exists>init g. list_index ics 1 = Inr init
         \<and> ConvGRU_forward (dct_convGRU2 d) (w_convGRU2 W) hs init = Inr g))
   \<and> (Sampler_dct_layer2 W d ics hs = Inr out \<longrightarrow>
      (\<exists>init g. list_index ics 0 = Inr init
         \<and> ConvGRU_forward (dct_convGRU3 d) (w_convGRU3 W) hs init = Inr g))"
proof (intro conjI impI allI)
  assume "forecast_steps s = PInt T \<and> latent_index lcs 3 = Inr l3"
  then show "Sampler_first_input_states s lcs = Inr (replicate (nat T) l3)"
    by (simp add: Sampler_first_input_states_eq)
next
  assume a: "forecast_steps s = PInt T \<and> length hs = nat T \<and> latent_index lcs k = Inr l"
  then show eq: "Sampler_input_states s lcs k hs = map_err (torch_cat l) hs"
    by (simp add: Sampler_input_states_map_err)
  fix xs i
  assume xs: "Sampler_input_states s lcs k hs = Inr xs"
  then have m: "map_err (torch_cat l) hs = Inr xs"
    using eq by simp
  then show "length xs = nat T"
    using a map_err_length by fastforce
  assume "i < length hs"
  then show "torch_cat l (hs ! i) = Inr (xs ! i)"
    using m by (rule map_err_nth_result [rotated])
next
  assume "Sampler_layer3 W s ics lcs hs = Inr out"
  then show "\<exists>xs init g. Sampler_input_states s lcs 2 hs = Inr xs
         \<and> list_index ics 2 = Inr init
         \<and> ConvGRU_forward (convGRU2 s) (w_convGRU2 W) xs init = Inr g"
    unfolding Sampler_layer3_def bind_err_eq_Inr by blast
next
  assume "Sampler_layer2 W s ics lcs hs = Inr out"
  then show "\<exists>xs init g. Sampler_input_states s lcs 1 hs = Inr xs
         \<and> list_index ics 1 = Inr init
         \<and> ConvGRU_forward (convGRU3 s) (w_convGRU3 W) xs init = Inr g"
    unfolding Sampler_layer2_def bind_err_eq_Inr by blast
next
  assume "Sampler_layer1 W s ics lcs hs = Inr out"
  then show "\<exists>xs init g. Sampler_input_states s lcs 0 hs = Inr xs
         \<and> list_index ics 0 = Inr init
         \<and> ConvGRU_forward (convGRU4 s) (w_convGRU4 W) xs init = Inr g"
    unfolding Sampler_layer1_def bind_err_eq_Inr by blast
next
  assume a: "dct_forecast_steps d = PInt T \<and> list_index ics 0 = Inr c0 \<and> shape c0 = B # rest
        \<and> shape t = [bl, c, h, w]"
  then have "latent_repeat (LTensor t) B
      = Inr \<lparr>shape = [B * bl, c, h, w], vals = concat (replicate B (vals t))\<rparr>"
    by (simp add: latent_repeat_def einops_repeat_shape4)
  then show "Sampler_dct_first_input_states d ics (LTensor t)
      = Inr (replicate (nat T)
               \<lparr>shape = [B * bl, c, h, w], vals = concat (replicate B (vals t))\<rparr>)"
    using a Sampler_dct_first_input_states_eq by blast
next
  assume "Sampler_dct_layer3 W d ics hs = Inr out"
  then show "\<exists>init g. list_index ics 1 = Inr init
         \<and> ConvGRU_forward (dct_convGRU2 d) (w_convGRU2 W) hs init = Inr g"
    unfolding Sampler_dct_layer3_def bind_err_eq_Inr by blast
next
  assume "Sampler_dct_layer2 W d ics hs = Inr out"
  then show "\<exists>init g. list_index ics 0 = Inr init
         \<and> ConvGRU_forward (dct_convGRU3 d) (w_convGRU3 W) hs init = Inr g"
    unfolding Sampler_dct_layer2_def bind_err_eq_Inr by blast
qed

theorem Sampler_input_sequences_witness:
  "Sampler_first_input_states default_sampler example_lcs
     = Inr (replicate (nat 18) (zeros [1, 768, 8, 8]))
   \<and> (\<exists>hs4 hs3 hs2 hs1.
        Sampler_layer4 zero_weights default_sampler example_ics example_lcs = Inr hs4
        \<and> length hs4 = nat 18
        \<and> Sampler_input_states default_sampler example_lcs 2 hs4
            = map_err (torch_cat (zeros [1, 384, 16, 16])) hs4
        \<and> Sampler_layer3 zero_weights default_sampler example_ics example_lcs hs4 = Inr hs3
        \<and> (\<exists>xs init g. Sampler_input_states default_sampler example_lcs 2 hs4 = Inr xs
              \<and> length xs = nat 18
              \<and> torch_cat (zeros [1, 384, 16, 16]) (hs4 ! 0) = Inr (xs ! 0)
              \<and> list_index example_ics 2 = Inr init
              \<and> ConvGRU_forward (convGRU2 default_sampler) (w_convGRU2 zero_weights) xs init
                  = Inr g)
        \<and> Sampler_layer2 zero_weights default_sampler example_ics example_lcs hs3 = Inr hs2
        \<and> (\<exists>xs init g. Sampler_input_states default_sampler example_lcs 1 hs3 = Inr xs
              \<and> list_index example_ics 1 = Inr init
              \<and> ConvGRU_forward (convGRU3 default_sampler) (w_convGRU3 zero_weights) xs init
                  = Inr g)
        \<and> Sampler_layer1 zero_weights default_sampler example_ics example_lcs hs2 = Inr hs1
        \<and> (\<exists>xs init g. Sampler_input_states default_sampler example_lcs 0 hs2 = Inr xs
              \<and> list_index example_ics 0 = Inr init
              \<and> ConvGRU_forward (convGRU4 default_sampler) (w_convGRU4 zero_weights) xs init
                  = Inr g))
   \<and> Sampler_dct_first_input_states example_dct_sampler example_dct_ics
        (LTensor (zeros [1, 768, 16, 16]))
      = Inr (replicate (nat 18)
               \<lparr>shape = [1 * 1, 768, 16, 16],
                vals = concat (replicate 1 (vals (zeros [1, 768, 16, 16])))\<rparr>)
   \<and> (\<exists>hs5 hs4 hs3 hs2.
        Sampler_dct_first_input_states example_dct_sampler example_dct_ics example_dct_latent
          = Inr hs5
        \<and> Sampler_dct_layer4 zero_weights example_dct_sampler example_dct_ics hs5 = Inr hs4
        \<and> Sampler_dct_layer3 zero_weights example_dct_sampler example_dct_ics hs4 = Inr hs3
        \<and> (\<exists>init g. list_index example_dct_ics 1 = Inr init
              \<and> ConvGRU_forward (dct_convGRU2 example_dct_sampler) (w_convGRU2 zero_weights)
                   hs4 init = Inr g)
        \<and> Sampler_dct_layer2 zero_weights example_dct_sampler example_dct_ics hs3 = Inr hs2
        \<and> (\<exists>init g. list_index example_dct_ics 0 = Inr init
              \<and> ConvGRU_forward (dct_convGRU3 example_dct_sampler) (w_convGRU3 zero_weights)
                   hs3 init = Inr g))"
proof -
  have steps: "forecast_steps default_sampler = PInt 18"
    by (simp add: default_sampler_def Sampler_modules_sel)
  have dsteps: "dct_forecast_steps example_dct_sampler = PInt 18"
    by (simp add: example_dct_sampler_def Sampler_dct_modules_sel)
  obtain hs4 hs3 hs2 hs1 where
    r4: "Sampler_layer4 zero_weights default_sampler example_ics example_lcs = Inr hs4"
    and n4: "length hs4 = nat 18"
    and r3: "Sampler_layer3 zero_weights default_sampler example_ics example_lcs hs4 = Inr hs3"
    and n3: "length hs3 = nat 18"
    and r2: "Sampler_layer2 zero_weights default_sampler example_ics example_lcs hs3 = Inr hs2"
    and n2: "length hs2 = nat 18"
    and r1: "Sampler_layer1 zero_weights default_sampler example_ics example_lcs hs2 = Inr hs1"
    using example_chain by blast
  obtain ds5 ds4 ds3 ds2 where
    d5: "Sampler_dct_first_input_states example_dct_sampler example_dct_ics example_dct_latent
          = Inr ds5"
    and d4: "Sampler_dct_layer4 zero_weights example_dct_sampler example_dct_ics ds5 = Inr ds4"
    and d3: "Sampler_dct_layer3 zero_weights example_dct_sampler example_dct_ics ds4 = Inr ds3"
    and d2: "Sampler_dct_layer2 zero_weights example_dct_sampler example_dct_ics ds3 = Inr ds2"
    using example_dct_chain by blast
  have c0: "shape (zeros [1, 96, 64, 64]) = 1 # [96, 64, 64]"
    and t: "shape (zeros [1, 768, 16, 16]) = [1, 768, 16, 16]"
    by simp_all
  have pos: "0 < length hs4"
    using n4 by simp
  note stage3 = Sampler_input_sequences [of default_sampler 18 example_lcs
      "zeros [1, 768, 8, 8]" hs4 2 "zeros [1, 384, 16, 16]" zero_weights example_ics hs3]
  note stage2 = Sampler_input_sequences [of default_sampler 18 example_lcs
      "zeros [1, 768, 8, 8]" hs3 1 "zeros [1, 192, 32, 32]" zero_weights example_ics hs2]
  note stage1 = Sampler_input_sequences [of default_sampler 18 example_lcs
      "zeros [1, 768, 8, 8]" hs2 0 "zeros [1, 96, 64, 64]" zero_weights example_ics hs1]
  note dstage3 = Sampler_input_sequences [of default_sampler 18 example_lcs
      "zeros [1, 768, 8, 8]" ds4 2 "zeros [1, 384, 16, 16]" zero_weights example_dct_ics ds3
      example_dct_sampler "zeros [1, 96, 64, 64]" 1 "[96, 64, 64]" "zeros [1, 768, 16, 16]"
      1 768 16 16]
  note dstage2 = Sampler_input_sequences [of default_sampler 18 example_lcs
      "zeros [1, 768, 8, 8]" ds3 2 "zeros [1, 384, 16, 16]" zero_weights example_dct_ics ds2
      example_dct_sampler]
  have first: "Sampler_first_input_states default_sampler example_lcs
     = Inr (replicate (nat 18) (zeros [1, 768, 8, 8]))"
    using stage3 steps example_lcs_index(1) by blast
  have eq3: "Sampler_input_states default_sampler example_lcs 2 hs4
            = map_err (torch_cat (zeros [1, 384, 16, 16])) hs4"
    using stage3 steps n4 example_lcs_index(2) by blast
  have in3: "\<exists>xs init g. Sampler_input_states default_sampler example_lcs 2 hs4 = Inr xs
              \<and> length xs = nat 18
              \<and> torch_cat (zeros [1, 384, 16, 16]) (hs4 ! 0) = Inr (xs ! 0)
              \<and> list_index example_ics 2 = Inr init
              \<and> ConvGRU_forward (convGRU2 default_sampler) (w_convGRU2 zero_weights) xs init
                  = Inr g"
  proof -
    obtain xs init g where x: "Sampler_input_states default_sampler example_lcs 2 hs4 = Inr xs"
      and i: "list_index example_ics 2 = Inr init"
      and g: "ConvGRU_forward (convGRU2 default_sampler) (w_convGRU2 zero_weights) xs init
                  = Inr g"
      using stage3 r3 by blast
    have "length xs = nat 18"
      and "torch_cat (zeros [1, 384, 16, 16]) (hs4 ! 0) = Inr (xs ! 0)"
      using stage3 steps n4 example_lcs_index(2) x pos by blast+
    then show ?thesis
      using x i g by blast
  qed
  have in2: "\<exists>xs init g. Sampler_input_states default_sampler example_lcs 1 hs3 = Inr xs
              \<and> list_index example_ics 1 = Inr init
              \<and> ConvGRU_forward (convGRU3 default_sampler) (w_convGRU3 zero_weights) xs init
                  = Inr g"
    using stage2 r2 by blast
  have in1: "\<exists>xs init g. Sampler_input_states default_sampler example_lcs 0 hs2 = Inr xs
              \<and> list_index example_ics 0 = Inr init
              \<and> ConvGRU_forward (convGRU4 default_sampler) (w_convGRU4 zero_weights) xs init
                  = Inr g"
    using stage1 r1 by blast
  have dfirst: "Sampler_dct_first_input_states example_dct_sampler example_dct_ics
        (LTensor (zeros [1, 768, 16, 16]))
      = Inr (replicate (nat 18)
               \<lparr>shape = [1 * 1, 768, 16, 16],
                vals = concat (replicate 1 (vals (zeros [1, 768, 16, 16])))\<rparr>)"
    using dstage3 dsteps example_dct_ics_index(3) c0 t by blast
  have din3: "\<exists>init g. list_index example_dct_ics 1 = Inr init
              \<and> ConvGRU_forward (dct_convGRU2 example_dct_sampler) (w_convGRU2 zero_weights)
                   ds4 init = Inr g"
    using dstage3 d3 by blast
  have din2: "\<exists>init g. list_index example_dct_ics 0 = Inr init
              \<and> ConvGRU_forward (dct_convGRU3 example_dct_sampler) (w_convGRU3 zero_weights)
                   ds3 init = Inr g"
    using dstage2 d2 by blast
  have std: "\<exists>hs4 hs3 hs2 hs1.
        Sampler_layer4 zero_weights default_sampler example_ics example_lcs = Inr hs4
        \<and> length hs4 = nat 18
        \<and> Sampler_input_states default_sampler example_lcs 2 hs4
            = map_err (torch_cat (zeros [1, 384, 16, 16])) hs4
        \<and> Sampler_layer3 zero_weights default_sampler example_ics example_lcs hs4 = Inr hs3
        \<and> (\<exists>xs init g. Sampler_input_states default_sampler example_lcs 2 hs4 = Inr xs
              \<and> length xs = nat 18
              \<and> torch_cat (zeros [1, 384, 16, 16]) (hs4 ! 0) = Inr (xs ! 0)
              \<and> list_index example_ics 2 = Inr init
              \<and> ConvGRU_forward (convGRU2 default_sampler) (w_convGRU2 zero_weights) xs init
                  = Inr g)
        \<and> Sampler_layer2 zero_weights default_sampler example_ics example_lcs hs3 = Inr hs2
        \<and> (\<exists>xs init g. Sampler_input_states default_sampler example_lcs 1 hs3 = Inr xs
              \<and> list_index example_ics 1 = Inr init
              \<and> ConvGRU_forward (convGRU3 default_sampler) (w_convGRU3 zero_weights) xs init
                  = Inr g)
        \<and> Sampler_layer1 zero_weights default_sampler example_ics example_lcs hs2 = Inr hs1
        \<and> (\<exists>xs init g. Sampler_input_states default_sampler example_lcs 0 hs2 = Inr xs
              \<and> list_index example_ics 0 = Inr init
              \<and> ConvGRU_forward (convGRU4 default_sampler) (w_convGRU4 zero_weights) xs init
                  = Inr g)"
    using r4 n4 eq3 r3 in3 r2 in2 r1 in1 by blast
  have dct: "\<exists>hs5 hs4 hs3 hs2.
        Sampler_dct_first_input_states example_dct_sampler example_dct_ics example_dct_latent
          = Inr hs5
        \<and> Sampler_dct_layer4 zero_weights example_dct_sampler example_dct_ics hs5 = Inr hs4
        \<and> Sampler_dct_layer3 zero_weights example_dct_sampler example_dct_ics hs4 = Inr hs3
        \<and> (\<exists>init g. list_index example_dct_ics 1 = Inr init
              \<and> ConvGRU_forward (dct_convGRU2 example_dct_sampler) (w_convGRU2 zero_weights)
                   hs4 init = Inr g)
        \<and> Sampler_dct_layer2 zero_weights example_dct_sampler example_dct_ics hs3 = Inr hs2
        \<and> (\<exists>init g. list_index example_dct_ics 0 = Inr init
              \<and> ConvGRU_forward (dct_convGRU3 example_dct_sampler) (w_convGRU3 zero_weights)
                   hs3 init = Inr g)"
    using d5 d4 d3 din3 d2 din2 by blast
  show ?thesis
    using first std dfirst dct by blast
qed

text \<open>
  The claim as the spec states it concatenates the matching-scale context tensor with
  the previous hidden state. In the small scenario the second stage of the standard
  variant receives the latent entry (the sevens) followed by the hidden state, which
  differs from the context tensor (the nines) followed by the hidden state.
\<close>

theorem Sampler_later_stage_input_counterexample:
  "Sampler_layer4 zero_weights small_sampler small_ics small_lcs = Inr [zeros [1, 4, 2, 2]]
   \<and> latent_index small_lcs 2 = Inr (const_tensor [1, 4, 2, 2] 7)
   \<and> list_index small_ics 2 = Inr (const_tensor [1, 4, 2, 2] 9)
   \<and> Sampler_input_states small_sampler small_lcs 2 [zeros [1, 4, 2, 2]]
       = Inr [\<lparr>shape = [1, 8, 2, 2], vals = replicate 16 7 @ replicate 16 0\<rparr>]
   \<and> torch_cat (const_tensor [1, 4, 2, 2] 9) (zeros [1, 4, 2, 2])
       = Inr \<lparr>shape = [1, 8, 2, 2], vals = replicate 16 9 @ replicate 16 0\<rparr>
   \<and> Sampler_input_states small_sampler small_lcs 2 [zeros [1, 4, 2, 2]]
       \<noteq> map_err (torch_cat (const_tensor [1, 4, 2, 2] 9)) [zeros [1, 4, 2, 2]]"
  by code_simp

section \<open>The latent input\<close>

text \<open>
  Claim C4, as amended. In the standard variant the latent input is a list aligned with
  the context scales, of which \<^verbatim>\<open>forward\<close> reads entries 3, 2, 1 and 0 and no other:
  a list of fewer than four entries fails with IndexError, and entry 3 is broadcast
  across the forecast horizon as it is given, without batch repetition. In the DCT
  variant the latent input is a single tensor of four axes: its batch axis is repeated
  as often as context entry 0 has batch entries and the result is broadcast across the
  forecast horizon, so it matches the batch of the context states when it is a single
  sample; a latent tensor whose repeated batch differs from the context batch makes the
  call fail, and so does a list of tensors of different shapes.
\<close>

theorem Sampler_latent_input:
  "Sampler_forward W s ics (LList ls) = Sampler_forward W s ics (LList (take 4 ls))
   \<and> (length ls < 4 \<longrightarrow> Sampler_forward W s ics (LList ls) = Inl IndexError)
   \<and> (forecast_steps s = PInt T \<and> 3 < length ls \<longrightarrow>
        Sampler_first_input_states s (LList ls) = Inr (replicate (nat T) (ls ! 3)))
   \<and> (dct_forecast_steps d = PInt T \<and> list_index ics 0 = Inr c0 \<and> shape c0 = B # rest
        \<and> shape t = [bl, c, h, w] \<longrightarrow>
        Sampler_dct_first_input_states d ics (LTensor t)
        = Inr (replicate (nat T)
                 \<lparr>shape = [B * bl, c, h, w], vals = concat (replicate B (vals t))\<rparr>))
   \<and> (dct_forecast_steps d = PInt T \<and> 1 \<le> T
        \<and> list_index ics 0 = Inr c0 \<and> shape c0 = B # rest
        \<and> list_index ics 2 = Inr c2 \<and> take 1 (shape c2) = [B]
        \<and> shape t = [bl, c, h, w] \<and> B * bl \<noteq> B \<longrightarrow>
        Sampler_dct_forward W d ics (LTensor t) = Inl RuntimeError)
   \<and> (list_index ics 0 = Inr c0 \<and> shape c0 = B # rest \<and> ls \<noteq> [] \<and> \<not> same_shapes ls \<longrightarrow>
        Sampler_dct_forward W d ics (LList ls) = Inl RuntimeError)"
proof (intro conjI impI)
  show "Sampler_forward W s ics (LList ls) = Sampler_forward W s ics (LList (take 4 ls))"
    by (rule Sampler_forward_latent_cong) (simp_all add: latent_index_def list_index_take)
  show "Sampler_forward W s ics (LList ls) = Inl IndexError" if "length ls < 4"
    using that by (rule Sampler_forward_short_latent)
  show "Sampler_first_input_states s (LList ls) = Inr (replicate (nat T) (ls ! 3))"
    if "forecast_steps s = PInt T \<and> 3 < length ls"
    using that
    by (intro Sampler_first_input_states_eq) (simp_all add: latent_index_def list_index_def)
  show "Sampler_dct_first_input_states d ics (LTensor t)
        = Inr (replicate (nat T)
                 \<lparr>shape = [B * bl, c, h, w], vals = concat (replicate B (vals t))\<rparr>)"
    if a: "dct_forecast_steps d = PInt T \<and> list_index ics 0 = Inr c0 \<and> shape c0 = B # rest
        \<and> shape t = [bl, c, h, w]"
  proof -
    have "latent_repeat (LTensor t) B
        = Inr \<lparr>shape = [B * bl, c, h, w], vals = concat (replicate B (vals t))\<rparr>"
      using a by (simp add: latent_repeat_def einops_repeat_shape4)
    then show ?thesis
      using a Sampler_dct_first_input_states_eq by blast
  qed
  show "Sampler_dct_forward W d ics (LTensor t) = Inl RuntimeError"
    if "dct_forecast_steps d = PInt T \<and> 1 \<le> T
        \<and> list_index ics 0 = Inr c0 \<and> shape c0 = B # rest
        \<and> list_index ics 2 = Inr c2 \<and> take 1 (shape c2) = [B]
        \<and> shape t = [bl, c, h, w] \<and> B * bl \<noteq> B"
    using that Sampler_dct_forward_batch_mismatch by blast
  show "Sampler_dct_forward W d ics (LList ls) = Inl RuntimeError"
    if "list_index ics 0 = Inr c0 \<and> shape c0 = B # rest \<and> ls \<noteq> [] \<and> \<not> same_shapes ls"
    using that Sampler_dct_forward_latent_list by blast
qed

theorem Sampler_latent_input_witness:
  "Sampler_forward zero_weights default_sampler example_ics
      (LList [zeros [1, 96, 64, 64], zeros [1, 192, 32, 32], zeros [1, 384, 16, 16],
              zeros [1, 768, 8, 8], zeros [1, 1536, 4, 4]])
    = Sampler_forward zero_weights default_sampler example_ics
        (LList (take 4 [zeros [1, 96, 64, 64], zeros [1, 192, 32, 32], zeros [1, 384, 16, 16],
                        zeros [1, 768, 8, 8], zeros [1, 1536, 4, 4]]))
   \<and> Sampler_forward zero_weights default_sampler example_ics
        (LList [zeros [1, 96, 64, 64], zeros [1, 192, 32, 32], zeros [1, 384, 16, 16]])
      = Inl IndexError
   \<and> Sampler_first_input_states default_sampler
        (LList [zeros [1, 96, 64, 64], zeros [1, 192, 32, 32], zeros [1, 384, 16, 16],
                zeros [1, 768, 8, 8]])
      = Inr (replicate (nat 18)
               ([zeros [1, 96, 64, 64], zeros [1, 192, 32, 32], zeros [1, 384, 16, 16],
                 zeros [1, 768, 8, 8]] ! 3))
   \<and> Sampler_dct_first_input_states example_dct_sampler example_dct_ics
        (LTensor (zeros [1, 768, 16, 16]))
      = Inr (replicate (nat 18)
               \<lparr>shape = [1 * 1, 768, 16, 16],
                vals = concat (replicate 1 (vals (zeros [1, 768, 16, 16])))\<rparr>)
   \<and> Sampler_dct_forward zero_weights example_dct_sampler
        [zeros [2, 96, 64, 64], zeros [2, 192, 32, 32], zeros [2, 384, 16, 16]]
        (LTensor (zeros [2, 768, 16, 16]))
      = Inl RuntimeError
   \<and> Sampler_dct_forward zero_weights example_dct_sampler example_dct_ics
        (LList [zeros [1, 192, 32, 32], zeros [1, 384, 16, 16]])
      = Inl RuntimeError"
proof -
  have steps: "forecast_steps default_sampler = PInt 18"
    by (simp add: default_sampler_def Sampler_modules_sel)
  have dsteps: "dct_forecast_steps example_dct_sampler = PInt 18"
    by (simp add: example_dct_sampler_def Sampler_dct_modules_sel)
  let ?ls5 = "[zeros [1, 96, 64, 64], zeros [1, 192, 32, 32], zeros [1, 384, 16, 16],
              zeros [1, 768, 8, 8], zeros [1, 1536, 4, 4]]"
  let ?ls3 = "[zeros [1, 96, 64, 64], zeros [1, 192, 32, 32], zeros [1, 384, 16, 16]]"
  let ?ls4 = "[zeros [1, 96, 64, 64], zeros [1, 192, 32, 32], zeros [1, 384, 16, 16],
              zeros [1, 768, 8, 8]]"
  let ?ls2 = "[zeros [1, 192, 32, 32], zeros [1, 384, 16, 16]]"
  let ?ics2 = "[zeros [2, 96, 64, 64], zeros [2, 192, 32, 32], zeros [2, 384, 16, 16]]"
  have a: "Sampler_forward zero_weights default_sampler example_ics (LList ?ls5)
      = Sampler_forward zero_weights default_sampler example_ics (LList (take 4 ?ls5))"
    using Sampler_latent_input [of zero_weights default_sampler example_ics ?ls5] by blast
  have short: "length ?ls3 < 4"
    by simp
  have b: "Sampler_forward zero_weights default_sampler example_ics (LList ?ls3)
      = Inl IndexError"
    using Sampler_latent_input [of zero_weights default_sampler example_ics ?ls3] short
    by blast
  have long: "3 < length ?ls4"
    by simp
  have c: "Sampler_first_input_states default_sampler (LList ?ls4)
      = Inr (replicate (nat 18) (?ls4 ! 3))"
    using Sampler_latent_input [of zero_weights default_sampler example_ics ?ls4 18]
      steps long
    by blast
  have c0: "shape (zeros [1, 96, 64, 64]) = 1 # [96, 64, 64]"
    and t: "shape (zeros [1, 768, 16, 16]) = [1, 768, 16, 16]"
    by simp_all
  have d: "Sampler_dct_first_input_states example_dct_sampler example_dct_ics
        (LTensor (zeros [1, 768, 16, 16]))
      = Inr (replicate (nat 18)
               \<lparr>shape = [1 * 1, 768, 16, 16],
                vals = concat (replicate 1 (vals (zeros [1, 768, 16, 16])))\<rparr>)"
    using Sampler_latent_input [of zero_weights default_sampler example_dct_ics ?ls4 18
        example_dct_sampler "zeros [1, 96, 64, 64]" 1 "[96, 64, 64]" "zeros [1, 768, 16, 16]"
        1 768 16 16]
      dsteps example_dct_ics_index(3) c0 t
    by blast
  have i0: "list_index ?ics2 0 = Inr (zeros [2, 96, 64, 64])"
    and i2: "list_index ?ics2 2 = Inr (zeros [2, 384, 16, 16])"
    by (simp_all add: list_index_def)
  have s0: "shape (zeros [2, 96, 64, 64]) = 2 # [96, 64, 64]"
    and s2: "take 1 (shape (zeros [2, 384, 16, 16])) = [2]"
    and t2: "shape (zeros [2, 768, 16, 16]) = [2, 768, 16, 16]"
    and ne: "(2::nat) * 2 \<noteq> 2" and T: "(1::int) \<le> 18"
    by simp_all
  have e: "Sampler_dct_forward zero_weights example_dct_sampler ?ics2
        (LTensor (zeros [2, 768, 16, 16])) = Inl RuntimeError"
    using Sampler_latent_input [of zero_weights default_sampler ?ics2 ?ls4 18
        example_dct_sampler "zeros [2, 96, 64, 64]" 2 "[96, 64, 64]" "zeros [2, 768, 16, 16]"
        2 768 16 16 "zeros [2, 384, 16, 16]"]
      dsteps T i0 s0 i2 s2 t2 ne
    by blast
  have ne2: "?ls2 \<noteq> []" and diff: "\<not> same_shapes ?ls2"
    by (simp_all add: same_shapes_def)
  have f: "Sampler_dct_forward zero_weights example_dct_sampler example_dct_ics (LList ?ls2)
      = Inl RuntimeError"
    using Sampler_latent_input [of zero_weights default_sampler example_dct_ics ?ls2 18
        example_dct_sampler "zeros [1, 96, 64, 64]" 1 "[96, 64, 64]"]
      example_dct_ics_index(3) c0 ne2 diff
    by blast
  show ?thesis
    using a b c d e f by blast
qed

text \<open>
  The claim as the spec states it gives the single tensor to the standard variant and
  the four-entry list to the DCT variant. On the scenarios above the standard variant
  refuses a single latent tensor and accepts the list, and the DCT variant refuses the
  list of four latent tensors and accepts the single tensor.
\<close>

theorem Sampler_latent_kind_counterexample:
  "Sampler_forward zero_weights default_sampler example_ics (LTensor (zeros [1, 768, 8, 8]))
     = Inl IndexError
   \<and> result_shape (Sampler_forward zero_weights default_sampler example_ics example_lcs)
     = Inr [1, 18, 1, 256, 256]
   \<and> Sampler_dct_forward zero_weights example_dct_sampler example_dct_ics example_lcs
     = Inl RuntimeError
   \<and> result_shape
       (Sampler_dct_forward zero_weights example_dct_sampler example_dct_ics
          example_dct_latent)
     = Inr [1, 18, 16, 64, 64]"
proof -
  have "Sampler_forward zero_weights default_sampler example_ics
          (LTensor (zeros [1, 768, 8, 8])) = Inl IndexError"
    by (simp add: Sampler_forward_def Sampler_layer4_def Sampler_first_input_states_def
        latent_index_def select0_def)
  moreover have "Sampler_dct_forward zero_weights example_dct_sampler example_dct_ics
          example_lcs = Inl RuntimeError"
    unfolding example_lcs_def
    by (rule Sampler_dct_forward_latent_list [OF example_dct_ics_index(3)])
       (simp_all add: same_shapes_def)
  ultimately show ?thesis
    by (simp add: example_forward_shape example_dct_forward_shape)
qed

end
